theory Spec2Isabelle
  imports Complex_Main
begin

section \<open>Data model\<close>

text \<open>
  The transactions module of the charging-station management server, and the security
  event repository of its data layer. A JavaScript number is a finite double, modelled
  as the real it denotes, and arithmetic on numbers rounds as binary64 does; NaN, the
  infinities and the sign of zero are not modelled. Optional and nullable fields are
  options; the durable
  stores behind the repositories are lists of rows held in one record, and every
  handler is a function from that record to an outcome and the updated record.
\<close>

subsection \<open>Protocol enumerations\<close>

datatype TransactionEventEnumType = Ended | Started | Updated

datatype AuthorizationStatusEnumType =
    Accepted | Blocked | ConcurrentTx | Expired | Invalid | NoCredit
  | NotAllowedTypeEVSE | NotAtThisLocation | NotAtThisTime | Unknown

datatype AttributeEnumType = Actual | Target | MinSet | MaxSet

datatype ErrorCode =
    FormatViolation | GenericError | InternalError | MessageTypeNotSupported
  | NotImplemented | NotSupported | OccurrenceConstraintViolation
  | PropertyConstraintViolation | ProtocolError | RpcFrameworkError
  | SecurityError | TypeConstraintViolation

text \<open>
  A handler's promise either resolves or rejects. It rejects with the \<open>OcppError\<close>
  the handler throws itself (correlation id, code, message), or with whatever an
  awaited collaborator rejected with.
\<close>

datatype error = OcppError string ErrorCode string | Rejected string

subsection \<open>Messages\<close>

record MessageContext =
  ctx_stationId :: string
  ctx_tenantId :: string
  ctx_correlationId :: string

record 'p IMessage =
  msg_context :: MessageContext
  msg_payload :: 'p

record SampledValueType =
  sv_value :: real
  sv_signedMeterData :: "string option"

record MeterValueType =
  mv_timestamp :: string
  mv_sampledValue :: "SampledValueType list"

record TransactionType =
  transactionId :: string

record IdTokenType =
  idt_idToken :: string
  idt_type :: string

record TransactionEventRequest =
  eventType :: TransactionEventEnumType
  transactionInfo :: TransactionType
  idToken :: "IdTokenType option"
  reservationId :: "int option"
  meterValue :: "MeterValueType list option"

record IdTokenInfoType =
  status :: AuthorizationStatusEnumType

record TransactionEventResponse =
  totalCost :: "real option"
  chargingPriority :: "int option"
  idTokenInfo :: "IdTokenInfoType option"

record MeterValuesRequest =
  mvr_evseId :: int
  mvr_meterValue :: "MeterValueType list"

record CostUpdatedRequest =
  cu_totalCost :: real
  cu_transactionId :: string

datatype CallResult =
    TransactionEventResult TransactionEventResponse
  | MeterValuesResult

subsection \<open>Stored rows\<close>

record Transaction =
  tx_id :: int
  tx_stationId :: string
  tx_transactionId :: string
  tx_isActive :: bool
  tx_totalKwh :: "real option"

record Reservation =
  rsv_id :: int
  rsv_stationId :: string
  rsv_isActive :: bool
  rsv_terminatedByTransaction :: "string option"

record Tariff =
  tariff_id :: int
  tariff_stationId :: string
  pricePerKwh :: real

record StoredMeterValue =
  smv_transactionDatabaseId :: "int option"
  smv_meterValue :: MeterValueType

record VariableAttribute =
  va_stationId :: string
  va_component_name :: string
  va_variable_instance :: string
  va_variable_name :: string
  va_type :: AttributeEnumType
  va_value :: "string option"

subsection \<open>The state the module acts on\<close>

text \<open>
  \<open>IntervalTask\<close> is one timer armed by \<open>setInterval\<close>: the arguments its
  callback closes over and the delay in milliseconds.
\<close>

record IntervalTask =
  it_stationId :: string
  it_transactionId :: string
  it_tenantId :: string
  it_delayMs :: real

datatype level = LDebug | LInfo | LWarn | LError

text \<open>
  \<open>call\<close> names one invocation of a repository, of the authorization service or of
  the signature validator; \<open>calls\<close> lists them in the order the handler makes them.
\<close>

datatype call =
    CreateOrUpdateTransaction TransactionEventRequest string
  | UpdateAllReservations int string string
  | AuthorizeIdToken TransactionEventRequest MessageContext
  | ReadTransaction string string
  | FindTariffByStationId string
  | ReadAllMeterValues int
  | UpdateTransactionTotalKwh int real
  | ReadVariableAttributes string
  | ValidateMeterValues string "MeterValueType list"
  | CreateMeterValue MeterValueType

record world =
  transactions :: "Transaction list"
  reservations :: "Reservation list"
  meterValues :: "StoredMeterValue list"
  tariffs :: "Tariff list"
  variableAttributes :: "VariableAttribute list"
  timers :: "IntervalTask list"
  sentResults :: "(MessageContext \<times> CallResult) list"
  sentCalls :: "(string \<times> string \<times> CostUpdatedRequest) list"
  logs :: "(level \<times> string) list"
  calls :: "call list"

text \<open>
  What the module is constructed with: the two configuration values it reads, and the
  collaborators whose code lies outside the module. The transaction upsert of the data
  layer transforms the transaction and meter-value tables; the authorization service
  and the signature validator return a value or reject; \<open>getTotalKwh\<close> is
  \<open>MeterValueUtils.getTotalKwh\<close>.
\<close>

record env =
  costUpdatedInterval :: "real option"
  sendCostUpdatedOnMeterValue :: "bool option"
  upsertTransaction :: "TransactionEventRequest \<Rightarrow> string
     \<Rightarrow> Transaction list \<times> StoredMeterValue list
     \<Rightarrow> Transaction list \<times> StoredMeterValue list"
  authorizeIdToken :: "TransactionEventRequest \<Rightarrow> MessageContext \<Rightarrow> world
     \<Rightarrow> error + TransactionEventResponse"
  validateMeterValues :: "string \<Rightarrow> MeterValueType list \<Rightarrow> error + bool"
  getTotalKwh :: "MeterValueType list \<Rightarrow> real"

section \<open>Operations\<close>

subsection \<open>JavaScript truthiness of the optional values the handlers test\<close>

definition truthyNumber :: "real option \<Rightarrow> bool" where
  "truthyNumber x = (case x of None \<Rightarrow> False | Some v \<Rightarrow> v \<noteq> 0)"

definition truthyBoolean :: "bool option \<Rightarrow> bool" where
  "truthyBoolean x = (case x of None \<Rightarrow> False | Some b \<Rightarrow> b)"

definition truthyString :: "string option \<Rightarrow> bool" where
  "truthyString x = (case x of None \<Rightarrow> False | Some s \<Rightarrow> s \<noteq> [])"

subsection \<open>Logging, the call trace and sending\<close>

definition logMsg :: "level \<Rightarrow> string \<Rightarrow> world \<Rightarrow> world" where
  "logMsg l s w = w\<lparr>logs := logs w @ [(l, s)]\<rparr>"

definition invoke :: "call \<Rightarrow> world \<Rightarrow> world" where
  "invoke c w = w\<lparr>calls := calls w @ [c]\<rparr>"

definition sendCallResultWithMessage :: "'p IMessage \<Rightarrow> CallResult \<Rightarrow> world \<Rightarrow> world" where
  "sendCallResultWithMessage message response w =
     w\<lparr>sentResults := sentResults w @ [(msg_context message, response)]\<rparr>"

definition sendCall :: "string \<Rightarrow> string \<Rightarrow> CostUpdatedRequest \<Rightarrow> world \<Rightarrow> world" where
  "sendCall stationId tenantId request w =
     w\<lparr>sentCalls := sentCalls w @ [(stationId, tenantId, request)]\<rparr>"

subsection \<open>Repositories\<close>

text \<open>
  The repository methods the module calls are in the data layer; the store is taken to
  answer every call. The upsert is the parameter \<open>upsertTransaction\<close>; the call is
  noted after the tables are replaced by what it returns.
\<close>

definition createOrUpdateTransactionByTransactionEventAndStationId ::
  "env \<Rightarrow> TransactionEventRequest \<Rightarrow> string \<Rightarrow> world \<Rightarrow> world" where
  "createOrUpdateTransactionByTransactionEventAndStationId e request stationId w =
     (let (ts, ms) = upsertTransaction e request stationId (transactions w, meterValues w)
      in invoke (CreateOrUpdateTransaction request stationId)
           (w\<lparr>transactions := ts, meterValues := ms\<rparr>))"

text \<open>
  Modelled from the spec: \<open>readTransactionByStationIdAndTransactionId\<close> of the
  transaction-event store, "read by station+transaction id"; none found is a valid
  outcome.
\<close>

definition readTransactionByStationIdAndTransactionId ::
  "string \<Rightarrow> string \<Rightarrow> world \<Rightarrow> Transaction option" where
  "readTransactionByStationIdAndTransactionId stationId tid w =
     find (\<lambda>t. tx_stationId t = stationId \<and> tx_transactionId t = tid) (transactions w)"

text \<open>
  Modelled from the spec: \<open>findByStationId\<close> of the tariff store, "find active tariff
  by station id", with none found a valid outcome.
\<close>

definition findByStationId :: "string \<Rightarrow> world \<Rightarrow> Tariff option" where
  "findByStationId stationId w = find (\<lambda>t. tariff_stationId t = stationId) (tariffs w)"

text \<open>
  Modelled from the spec: \<open>readAllMeterValuesByTransactionDataBaseId\<close>, all meter
  values recorded against the transaction, which they are attached to by its database id.
\<close>

definition readAllMeterValuesByTransactionDataBaseId ::
  "int \<Rightarrow> world \<Rightarrow> MeterValueType list" where
  "readAllMeterValuesByTransactionDataBaseId dbId w =
     map smv_meterValue
       (filter (\<lambda>m. smv_transactionDatabaseId m = Some dbId) (meterValues w))"

text \<open>
  \<open>Transaction.update({ totalKwh }, { where: { id } })\<close>: the total is written onto
  every transaction row with that database id.
\<close>

definition Transaction_update :: "real \<Rightarrow> int \<Rightarrow> world \<Rightarrow> world" where
  "Transaction_update kwh dbId w =
     invoke (UpdateTransactionTotalKwh dbId kwh)
       (w\<lparr>transactions :=
            map (\<lambda>t. if tx_id t = dbId then t\<lparr>tx_totalKwh := Some kwh\<rparr> else t)
              (transactions w)\<rparr>)"

text \<open>
  Modelled from the spec: \<open>updateAllByQuery\<close> of the reservation store, the
  "conditional bulk update by id+station": the rows matching the \<open>where\<close> clause get
  the two values the handler passes, \<open>terminatedByTransaction\<close> and
  \<open>isActive: false\<close>.
\<close>

definition updateAllByQuery :: "string \<Rightarrow> int \<Rightarrow> string \<Rightarrow> world \<Rightarrow> world" where
  "updateAllByQuery terminatedBy rid stationId w =
     invoke (UpdateAllReservations rid stationId terminatedBy)
       (w\<lparr>reservations :=
            map (\<lambda>r. if rsv_id r = rid \<and> rsv_stationId r = stationId
                      then r\<lparr>rsv_terminatedByTransaction := Some terminatedBy,
                             rsv_isActive := False\<rparr>
                      else r)
              (reservations w)\<rparr>)"

text \<open>
  Modelled from the spec: \<open>createMeterValue\<close>, "append meter value", each value an
  independent append. The handler passes the meter value alone, so the row carries no
  transaction database id.
\<close>

definition createMeterValue :: "MeterValueType \<Rightarrow> world \<Rightarrow> world" where
  "createMeterValue m w =
     invoke (CreateMeterValue m)
       (w\<lparr>meterValues := meterValues w
            @ [\<lparr>smv_transactionDatabaseId = None, smv_meterValue = m\<rparr>]\<rparr>)"

text \<open>
  Modelled from the spec: \<open>readAllByQuerystring\<close> of the device-model store, "read
  device model attributes by station+component+variable", with the query the handler
  passes.
\<close>

definition readAllByQuerystring :: "string \<Rightarrow> world \<Rightarrow> VariableAttribute list" where
  "readAllByQuerystring stationId w =
     filter (\<lambda>a. va_stationId a = stationId \<and> va_component_name a = ''TariffCostCtrlr''
                 \<and> va_variable_instance a = ''Tariff'' \<and> va_variable_name a = ''Available''
                 \<and> va_type a = Actual)
       (variableAttributes w)"

subsection \<open>Arithmetic on doubles\<close>

text \<open>
  \<open>binade x\<close> is the exponent \<open>e\<close> with \<open>2^e \<le> x < 2^(e+1)\<close> for a positive \<open>x\<close>.
\<close>

function binade :: "real \<Rightarrow> int" where
  "binade x =
     (if x \<le> 0 then 0
      else if x < 1 then binade (2 * x) - 1
      else if 2 \<le> x then binade (x / 2) + 1
      else 0)"
  by pat_completeness auto

termination
proof (relation "measure (\<lambda>x. nat \<bar>\<lfloor>log 2 x\<rfloor>\<bar>)")
  show "wf (measure (\<lambda>x. nat \<bar>\<lfloor>log 2 x\<rfloor>\<bar>))"
    by simp
next
  fix x :: real
  assume a: "\<not> x \<le> 0" "x < 1"
  have l: "log 2 (2 * x) = 1 + log 2 x"
    using a by (simp add: log_mult)
  have "log 2 x < 0"
    using a by simp
  then have n: "\<lfloor>log 2 x\<rfloor> \<le> - 1"
    by linarith
  have "\<lfloor>log 2 (2 * x)\<rfloor> = 1 + \<lfloor>log 2 x\<rfloor>"
    unfolding l by linarith
  then show "(2 * x, x) \<in> measure (\<lambda>x. nat \<bar>\<lfloor>log 2 x\<rfloor>\<bar>)"
    using n by simp
next
  fix x :: real
  assume a: "\<not> x \<le> 0" "\<not> x < 1" "2 \<le> x"
  have l: "log 2 (x / 2) = log 2 x - 1"
    using a by (simp add: log_divide)
  have "1 \<le> log 2 x"
    using a by (simp add: le_log_iff)
  then have n: "1 \<le> \<lfloor>log 2 x\<rfloor>"
    by linarith
  have "\<lfloor>log 2 (x / 2)\<rfloor> = \<lfloor>log 2 x\<rfloor> - 1"
    unfolding l by linarith
  then show "(x / 2, x) \<in> measure (\<lambda>x. nat \<bar>\<lfloor>log 2 x\<rfloor>\<bar>)"
    using n by simp
qed

declare binade.simps [simp del]

text \<open>
  The spacing of the doubles around \<open>x\<close>: 52 fraction bits below the binade of
  \<open>x\<close>, and the fixed spacing \<open>2^-1074\<close> of the subnormal range below \<open>2^-1022\<close>.
\<close>

definition ulp :: "real \<Rightarrow> real" where
  "ulp x =
     (let e = max (binade \<bar>x\<bar>) (- 1022)
      in if 52 \<le> e then 2 ^ nat (e - 52) else 1 / 2 ^ nat (52 - e))"

definition roundHalfEven :: "real \<Rightarrow> int" where
  "roundHalfEven y =
     (let n = \<lfloor>y\<rfloor>; r = y - real_of_int n
      in if r < 1 / 2 then n
         else if 1 / 2 < r then n + 1
         else if even n then n else n + 1)"

text \<open>
  \<open>fl x\<close> is the double nearest to \<open>x\<close>, ties to the even significand: the rounding
  of every binary64 operation, and of a decimal literal. A result beyond the largest
  double is Infinity in JavaScript and is not modelled.
\<close>

definition fl :: "real \<Rightarrow> real" where
  "fl x = real_of_int (roundHalfEven (x / ulp x)) * ulp x"

definition fmul :: "real \<Rightarrow> real \<Rightarrow> real" where
  "fmul x y = fl (x * y)"

definition fdiv :: "real \<Rightarrow> real \<Rightarrow> real" where
  "fdiv x y = fl (x / y)"

definition fadd :: "real \<Rightarrow> real \<Rightarrow> real" where
  "fadd x y = fl (x + y)"

subsection \<open>Cost calculator\<close>

text \<open>
  \<open>_roundCost\<close>: \<open>Math.floor(cost * 100) / 100\<close>, the product and the quotient in
  double arithmetic; \<open>Math.floor\<close> of a double is exact.
\<close>

definition roundCost :: "real \<Rightarrow> real" where
  "roundCost cost = fdiv (real_of_int \<lfloor>fmul cost 100\<rfloor>) 100"

text \<open>
  The branch of \<open>_calculateTotalCost\<close> taken when \<open>totalKwh\<close> is falsy: derive the
  total from the meter values of the transaction and write it onto the transaction.
\<close>

definition deriveTotalKwh :: "env \<Rightarrow> int \<Rightarrow> world \<Rightarrow> real \<times> world" where
  "deriveTotalKwh e transactionDbId w =
     (let w1 = invoke (ReadAllMeterValues transactionDbId) w;
          kwh = getTotalKwh e (readAllMeterValuesByTransactionDataBaseId transactionDbId w1)
      in (kwh, Transaction_update kwh transactionDbId w1))"

definition calculateTotalCost ::
  "env \<Rightarrow> string \<Rightarrow> int \<Rightarrow> real option \<Rightarrow> world \<Rightarrow> real \<times> world" where
  "calculateTotalCost e stationId transactionDbId totalKwh w =
     (let w1 = invoke (FindTariffByStationId stationId) w
      in case findByStationId stationId w1 of
           Some tariff \<Rightarrow>
             (let w2 = logMsg LDebug ''Tariff found for station'' w1;
                  (kwh, w3) =
                     (case totalKwh of
                        None \<Rightarrow> deriveTotalKwh e transactionDbId w2
                      | Some k \<Rightarrow>
                          if k = 0 then deriveTotalKwh e transactionDbId w2 else (k, w2));
                  w4 = logMsg LDebug ''TotalKwh'' w3
              in (roundCost (fmul kwh (pricePerKwh tariff)), w4))
         | None \<Rightarrow> (0, logMsg LError ''Tariff not found for station'' w1))"

subsection \<open>Periodic cost updater\<close>

text \<open>
  \<open>_updateCost\<close> arms one \<open>setInterval\<close> timer with delay
  \<open>costUpdatedInterval * 1000\<close>; \<open>costUpdateTick\<close> is one run of its callback.
  The \<open>then\<close> continuations that only log a confirmation after a send has
  completed run outside the handler and are not part of its outcome.
\<close>

definition updateCost :: "string \<Rightarrow> string \<Rightarrow> real \<Rightarrow> string \<Rightarrow> world \<Rightarrow> world" where
  "updateCost stationId tid interval tenantId w =
     w\<lparr>timers := timers w
          @ [\<lparr>it_stationId = stationId, it_transactionId = tid, it_tenantId = tenantId,
              it_delayMs = fmul interval 1000\<rparr>]\<rparr>"

definition costUpdateTick :: "env \<Rightarrow> IntervalTask \<Rightarrow> world \<Rightarrow> world" where
  "costUpdateTick e task w =
     (let w1 = invoke (ReadTransaction (it_stationId task) (it_transactionId task)) w
      in case readTransactionByStationIdAndTransactionId
                (it_stationId task) (it_transactionId task) w1 of
           None \<Rightarrow> w1
         | Some transaction \<Rightarrow>
             if tx_isActive transaction
             then (let (cost, w2) =
                         calculateTotalCost e (it_stationId task) (tx_id transaction) None w1
                   in sendCall (it_stationId task) (it_tenantId task)
                        \<lparr>cu_totalCost = cost,
                         cu_transactionId = tx_transactionId transaction\<rparr> w2)
             else w1)"

subsection \<open>TransactionEvent handler\<close>

text \<open>
  The branch for an event that carries an identity token: authorize, send the result,
  and arm the cost updater when the event is \<open>Started\<close>, the status is
  \<open>Accepted\<close> and \<open>_costUpdatedInterval\<close> is truthy (defined and not 0).
\<close>

definition authorizedBranch ::
  "env \<Rightarrow> TransactionEventRequest IMessage \<Rightarrow> world \<Rightarrow> (error + unit) \<times> world" where
  "authorizedBranch e message w =
     (let transactionEvent = msg_payload message;
          stationId = ctx_stationId (msg_context message);
          tid = transactionId (transactionInfo transactionEvent);
          w1 = invoke (AuthorizeIdToken transactionEvent (msg_context message)) w
      in case authorizeIdToken e transactionEvent (msg_context message) w1 of
           Inl err \<Rightarrow> (Inl err, w1)
         | Inr response \<Rightarrow>
             (let w2 = sendCallResultWithMessage message (TransactionEventResult response) w1
              in case costUpdatedInterval e of
                   None \<Rightarrow> (Inr (), w2)
                 | Some interval \<Rightarrow>
                     if eventType transactionEvent = Started
                        \<and> map_option status (idTokenInfo response) = Some Accepted
                        \<and> interval \<noteq> 0
                     then (Inr (),
                           updateCost stationId tid interval
                             (ctx_tenantId (msg_context message)) w2)
                     else (Inr (), w2)))"

text \<open>The \<open>Updated\<close> step of an anonymous event (I02 and I06).\<close>

definition updatedStep ::
  "env \<Rightarrow> string \<Rightarrow> Transaction option \<Rightarrow> TransactionEventResponse \<Rightarrow> world
     \<Rightarrow> TransactionEventResponse \<times> world" where
  "updatedStep e stationId transaction response w =
     (let (response1, w1) =
            (case transaction of
               None \<Rightarrow> (response, w)
             | Some t \<Rightarrow>
                 if tx_isActive t \<and> truthyBoolean (sendCostUpdatedOnMeterValue e)
                 then (let (cost, w') =
                             calculateTotalCost e stationId (tx_id t) (tx_totalKwh t) w
                       in (response\<lparr>totalCost := Some cost\<rparr>, w'))
                 else (response, w));
          w2 = invoke (ReadVariableAttributes stationId) w1;
          supportTariff =
            (case readAllByQuerystring stationId w2 of
               [] \<Rightarrow> False
             | a # _ \<Rightarrow> truthyString (va_value a))
      in (response1,
          case transaction of
            None \<Rightarrow> w2
          | Some t \<Rightarrow>
              if supportTariff \<and> tx_isActive t
              then logMsg LDebug ''Checking if updated tariff information is available'' w2
              else w2))"

text \<open>The \<open>Ended\<close> step of an anonymous event.\<close>

definition endedStep ::
  "env \<Rightarrow> string \<Rightarrow> Transaction option \<Rightarrow> TransactionEventResponse \<Rightarrow> world
     \<Rightarrow> TransactionEventResponse \<times> world" where
  "endedStep e stationId transaction response w =
     (case transaction of
        None \<Rightarrow> (response, w)
      | Some t \<Rightarrow>
          (let (cost, w') = calculateTotalCost e stationId (tx_id t) (tx_totalKwh t) w
           in (response\<lparr>totalCost := Some cost\<rparr>, w')))"

text \<open>
  The branch for an event without identity token, up to the validation of the meter
  values: read the transaction and attach the cost on \<open>Updated\<close> and \<open>Ended\<close>.
\<close>

definition anonymousResponse ::
  "env \<Rightarrow> TransactionEventRequest IMessage \<Rightarrow> world \<Rightarrow> TransactionEventResponse \<times> world" where
  "anonymousResponse e message w =
     (let transactionEvent = msg_payload message;
          stationId = ctx_stationId (msg_context message);
          tid = transactionId (transactionInfo transactionEvent);
          response0 = \<lparr>totalCost = None, chargingPriority = None, idTokenInfo = None\<rparr>;
          w1 = invoke (ReadTransaction stationId tid) w;
          transaction = readTransactionByStationIdAndTransactionId stationId tid w1;
          (response1, w2) =
             (if eventType transactionEvent = Updated
              then updatedStep e stationId transaction response0 w1
              else (response0, w1))
      in if eventType transactionEvent = Ended
         then endedStep e stationId transaction response1 w2
         else (response1, w2))"

text \<open>
  The rest of that branch: validate the meter values when the event has any (an invalid
  signature is a warning), then send the response.
\<close>

definition anonymousBranch ::
  "env \<Rightarrow> TransactionEventRequest IMessage \<Rightarrow> world \<Rightarrow> (error + unit) \<times> world" where
  "anonymousBranch e message w =
     (let transactionEvent = msg_payload message;
          stationId = ctx_stationId (msg_context message);
          (response, w3) = anonymousResponse e message w
      in case meterValue transactionEvent of
           None \<Rightarrow>
             (Inr (), sendCallResultWithMessage message (TransactionEventResult response) w3)
         | Some mvs \<Rightarrow>
             (let w4 = invoke (ValidateMeterValues stationId mvs) w3
              in case validateMeterValues e stationId mvs of
                   Inl err \<Rightarrow> (Inl err, w4)
                 | Inr meterValuesValid \<Rightarrow>
                     (let w5 =
                            (if \<not> meterValuesValid
                             then logMsg LWarn
                                    ''One or more MeterValues in this TransactionEvent have an invalid signature.''
                                    w4
                             else w4)
                      in (Inr (),
                          sendCallResultWithMessage message
                            (TransactionEventResult response) w5))))"

text \<open>
  \<open>_handleTransactionEvent\<close>, first part: log, record the event, and update the
  reservation the event names. The test \<open>if (message.payload.reservationId)\<close> is
  JavaScript truthiness: it fails for an absent id and for the id 0.
\<close>

definition recordEvent ::
  "env \<Rightarrow> TransactionEventRequest IMessage \<Rightarrow> world \<Rightarrow> world" where
  "recordEvent e message w =
     (let w0 = logMsg LDebug ''Transaction event received:'' w;
          stationId = ctx_stationId (msg_context message);
          w1 = createOrUpdateTransactionByTransactionEventAndStationId e
                 (msg_payload message) stationId w0;
          transactionEvent = msg_payload message;
          tid = transactionId (transactionInfo transactionEvent)
      in case reservationId (msg_payload message) of
           None \<Rightarrow> w1
         | Some rid \<Rightarrow>
             if rid \<noteq> 0 then updateAllByQuery tid rid stationId w1 else w1)"

text \<open>\<open>_handleTransactionEvent\<close>, whole: the first part, then one of the two branches.\<close>

definition handleTransactionEvent ::
  "env \<Rightarrow> TransactionEventRequest IMessage \<Rightarrow> world \<Rightarrow> (error + unit) \<times> world" where
  "handleTransactionEvent e message w =
     (let w2 = recordEvent e message w
      in case idToken (msg_payload message) of
           Some tok \<Rightarrow> authorizedBranch e message w2
         | None \<Rightarrow> anonymousBranch e message w2)"

subsection \<open>MeterValues handler\<close>

definition handleMeterValues ::
  "env \<Rightarrow> MeterValuesRequest IMessage \<Rightarrow> world \<Rightarrow> (error + unit) \<times> world" where
  "handleMeterValues e message w =
     (let w0 = logMsg LDebug ''MeterValues received:'' w;
          mvs = mvr_meterValue (msg_payload message);
          stationId = ctx_stationId (msg_context message);
          w1 = foldl (\<lambda>acc m. createMeterValue m acc) w0 mvs;
          w2 = invoke (ValidateMeterValues stationId mvs) w1
      in case validateMeterValues e stationId mvs of
           Inl err \<Rightarrow> (Inl err, w2)
         | Inr meterValuesValid \<Rightarrow>
             if \<not> meterValuesValid
             then (Inl (OcppError (ctx_correlationId (msg_context message)) SecurityError
                          ''One or more MeterValues have an invalid signature.''),
                   w2)
             else (Inr (), sendCallResultWithMessage message MeterValuesResult w2))"

subsection \<open>Security event repository\<close>

text \<open>
  A \<open>Date\<close> is a valid instant, in milliseconds since the epoch. \<open>toISOString\<close>
  writes it as ISO-8601 text, which the database reads back as the same instant: the
  text is identified with the instant it denotes, so it is never the empty string.
\<close>

type_synonym Date = int

datatype ISOString = ISO int

definition toISOString :: "Date \<Rightarrow> ISOString" where
  "toISOString d = ISO d"

fun instant :: "ISOString \<Rightarrow> int" where
  "instant (ISO d) = d"

record SecurityEvent =
  se_stationId :: string
  se_type :: string
  se_timestamp :: int
  se_techInfo :: "string option"

text \<open>The four shapes of the \<open>timestamp\<close> part of the \<open>where\<close> clause.\<close>

datatype TimestampQuery =
    NoTimestamp
  | TimestampLte ISOString
  | TimestampGte ISOString
  | TimestampBetween ISOString ISOString

definition generateTimestampQuery ::
  "ISOString option \<Rightarrow> ISOString option \<Rightarrow> TimestampQuery" where
  "generateTimestampQuery fromDate toDate =
     (case (fromDate, toDate) of
        (None, None) \<Rightarrow> NoTimestamp
      | (None, Some t) \<Rightarrow> TimestampLte t
      | (Some f, None) \<Rightarrow> TimestampGte f
      | (Some f, Some t) \<Rightarrow> TimestampBetween f t)"

text \<open>
  The meaning of the query operators in the database: \<open>Op.lte\<close> is \<open>\<le>\<close>,
  \<open>Op.gte\<close> is \<open>\<ge>\<close>, and \<open>Op.between\<close> is SQL's inclusive \<open>BETWEEN\<close>.
\<close>

fun matchesTimestamp :: "TimestampQuery \<Rightarrow> int \<Rightarrow> bool" where
  "matchesTimestamp NoTimestamp ts = True"
| "matchesTimestamp (TimestampLte t) ts = (ts \<le> instant t)"
| "matchesTimestamp (TimestampGte f) ts = (instant f \<le> ts)"
| "matchesTimestamp (TimestampBetween f t) ts = (instant f \<le> ts \<and> ts \<le> instant t)"

definition readAllByQuery ::
  "string \<Rightarrow> TimestampQuery \<Rightarrow> SecurityEvent list \<Rightarrow> SecurityEvent list" where
  "readAllByQuery stationId timestampQuery rows =
     filter (\<lambda>ev. se_stationId ev = stationId
                  \<and> matchesTimestamp timestampQuery (se_timestamp ev)) rows"

definition readByStationIdAndTimestamps ::
  "string \<Rightarrow> Date option \<Rightarrow> Date option \<Rightarrow> SecurityEvent list \<Rightarrow> SecurityEvent list" where
  "readByStationIdAndTimestamps stationId fromDate toDate rows =
     (let timestampQuery =
            generateTimestampQuery (map_option toISOString fromDate)
              (map_option toISOString toDate)
      in readAllByQuery stationId timestampQuery rows)"

section \<open>Vocabulary of the properties\<close>

text \<open>
  The outcome of the authorization the handler asks for: the service is called on the
  state the first part of the handler leaves, with the call noted.
\<close>

definition authorizationOutcome ::
  "env \<Rightarrow> TransactionEventRequest IMessage \<Rightarrow> world \<Rightarrow> error + TransactionEventResponse" where
  "authorizationOutcome e message w =
     authorizeIdToken e (msg_payload message) (msg_context message)
       (invoke (AuthorizeIdToken (msg_payload message) (msg_context message))
          (recordEvent e message w))"

definition costUpdaterTask :: "TransactionEventRequest IMessage \<Rightarrow> real \<Rightarrow> IntervalTask" where
  "costUpdaterTask message interval =
     \<lparr>it_stationId = ctx_stationId (msg_context message),
      it_transactionId = transactionId (transactionInfo (msg_payload message)),
      it_tenantId = ctx_tenantId (msg_context message),
      it_delayMs = fmul interval 1000\<rparr>"

fun isAccepted :: "error + TransactionEventResponse \<Rightarrow> bool" where
  "isAccepted (Inl err) = False"
| "isAccepted (Inr response) = (map_option status (idTokenInfo response) = Some Accepted)"

definition forgetKwh :: "Transaction \<Rightarrow> Transaction" where
  "forgetKwh t = t\<lparr>tx_totalKwh := None\<rparr>"

fun isReservationUpdate :: "call \<Rightarrow> bool" where
  "isReservationUpdate (UpdateAllReservations rid stationId tid) = True"
| "isReservationUpdate c = False"

definition terminateReservation :: "int \<Rightarrow> string \<Rightarrow> string \<Rightarrow> Reservation \<Rightarrow> Reservation" where
  "terminateReservation rid stationId tid r =
     (if rsv_id r = rid \<and> rsv_stationId r = stationId
      then r\<lparr>rsv_terminatedByTransaction := Some tid, rsv_isActive := False\<rparr>
      else r)"

definition signatureWarning :: "level \<times> string" where
  "signatureWarning =
     (LWarn, ''One or more MeterValues in this TransactionEvent have an invalid signature.'')"

text \<open>
  \<open>costOnly w w'\<close>: \<open>w'\<close> differs from \<open>w\<close> at most in the cached energy totals
  of the transactions, in log entries added that are not warnings, and in calls added
  that are not reservation updates.
\<close>

definition costOnly :: "world \<Rightarrow> world \<Rightarrow> bool" where
  "costOnly w w' \<longleftrightarrow>
     map forgetKwh (transactions w') = map forgetKwh (transactions w)
     \<and> reservations w' = reservations w \<and> meterValues w' = meterValues w
     \<and> tariffs w' = tariffs w \<and> variableAttributes w' = variableAttributes w
     \<and> timers w' = timers w \<and> sentResults w' = sentResults w \<and> sentCalls w' = sentCalls w
     \<and> (\<exists>ls. logs w' = logs w @ ls \<and> filter (\<lambda>entry. fst entry = LWarn) ls = [])
     \<and> (\<exists>cs. calls w' = calls w @ cs \<and> filter isReservationUpdate cs = [])"

section \<open>A concrete installation\<close>

text \<open>
  Modelled from the spec: \<open>createOrUpdateTransactionByTransactionEventAndStationId\<close>
  is in the data layer. The spec: record or update the transaction keyed by
  (stationId, transactionId), created on the first event for that id, deactivated on
  \<open>Ended\<close>; the meter values of the event are attached to the transaction by its
  database id.
\<close>

definition upsertBySpec ::
  "TransactionEventRequest \<Rightarrow> string \<Rightarrow> Transaction list \<times> StoredMeterValue list
     \<Rightarrow> Transaction list \<times> StoredMeterValue list" where
  "upsertBySpec request stationId store =
     (let ts = fst store; ms = snd store;
          tid = transactionId (transactionInfo request);
          mvs = (case meterValue request of None \<Rightarrow> [] | Some l \<Rightarrow> l)
      in case find (\<lambda>t. tx_stationId t = stationId \<and> tx_transactionId t = tid) ts of
           None \<Rightarrow>
             (let dbId = int (length ts) + 1
              in (ts @ [\<lparr>tx_id = dbId, tx_stationId = stationId, tx_transactionId = tid,
                         tx_isActive = (eventType request \<noteq> Ended), tx_totalKwh = None\<rparr>],
                  ms @ map (\<lambda>m. \<lparr>smv_transactionDatabaseId = Some dbId,
                                   smv_meterValue = m\<rparr>) mvs))
         | Some t \<Rightarrow>
             (map (\<lambda>u. if tx_stationId u = stationId \<and> tx_transactionId u = tid
                           \<and> eventType request = Ended
                        then u\<lparr>tx_isActive := False\<rparr> else u) ts,
              ms @ map (\<lambda>m. \<lparr>smv_transactionDatabaseId = Some (tx_id t),
                               smv_meterValue = m\<rparr>) mvs))"

text \<open>
  An authorization service that accepts every token and one that rejects its promise;
  a validator that finds a signature invalid when its data is \<open>''tampered''\<close>.
\<close>

definition acceptEvery ::
  "TransactionEventRequest \<Rightarrow> MessageContext \<Rightarrow> world \<Rightarrow> error + TransactionEventResponse" where
  "acceptEvery request ctx w =
     Inr \<lparr>totalCost = None, chargingPriority = None,
          idTokenInfo = Some \<lparr>status = Accepted\<rparr>\<rparr>"

definition authorizerDown ::
  "TransactionEventRequest \<Rightarrow> MessageContext \<Rightarrow> world \<Rightarrow> error + TransactionEventResponse" where
  "authorizerDown request ctx w = Inl (Rejected ''authorizer unavailable'')"

definition untampered :: "string \<Rightarrow> MeterValueType list \<Rightarrow> error + bool" where
  "untampered stationId mvs =
     Inr (list_all (\<lambda>m. list_all (\<lambda>sv. sv_signedMeterData sv \<noteq> Some ''tampered'')
                           (mv_sampledValue m)) mvs)"

text \<open>
  Modelled from the spec: \<open>MeterValueUtils.getTotalKwh\<close> is in the base package.
  The spec: the total is derived "by summing/reducing all meter values recorded against
  the transaction". The sum runs over the sampled values of the meter values in stored
  order, in double arithmetic.
\<close>

definition sumOfMeterValues :: "MeterValueType list \<Rightarrow> real" where
  "sumOfMeterValues mvs = foldl fadd 0 (map sv_value (concat (map mv_sampledValue mvs)))"

definition station1 :: env where
  "station1 =
     \<lparr>costUpdatedInterval = Some 60, sendCostUpdatedOnMeterValue = Some True,
      upsertTransaction = upsertBySpec, authorizeIdToken = acceptEvery,
      validateMeterValues = untampered, getTotalKwh = sumOfMeterValues\<rparr>"

definition reading :: "string \<Rightarrow> real \<Rightarrow> string option \<Rightarrow> MeterValueType" where
  "reading ts v sig =
     \<lparr>mv_timestamp = ts,
      mv_sampledValue = [\<lparr>sv_value = v, sv_signedMeterData = sig\<rparr>]\<rparr>"

definition depot :: world where
  "depot =
     \<lparr>transactions =
        [\<lparr>tx_id = 42, tx_stationId = ''CS1'', tx_transactionId = ''TX42'',
          tx_isActive = True, tx_totalKwh = None\<rparr>],
      reservations =
        [\<lparr>rsv_id = 7, rsv_stationId = ''CS1'', rsv_isActive = True,
          rsv_terminatedByTransaction = None\<rparr>,
         \<lparr>rsv_id = 7, rsv_stationId = ''CS2'', rsv_isActive = True,
          rsv_terminatedByTransaction = None\<rparr>,
         \<lparr>rsv_id = 0, rsv_stationId = ''CS1'', rsv_isActive = True,
          rsv_terminatedByTransaction = None\<rparr>],
      meterValues =
        [\<lparr>smv_transactionDatabaseId = Some 42, smv_meterValue = reading ''t1'' 5 None\<rparr>,
         \<lparr>smv_transactionDatabaseId = Some 42, smv_meterValue = reading ''t2'' 7.5 None\<rparr>,
         \<lparr>smv_transactionDatabaseId = Some 41, smv_meterValue = reading ''t0'' 100 None\<rparr>],
      tariffs = [\<lparr>tariff_id = 1, tariff_stationId = ''CS1'', pricePerKwh = fl 0.30\<rparr>],
      variableAttributes = [], timers = [], sentResults = [], sentCalls = [],
      logs = [], calls = []\<rparr>"

definition ctx1 :: MessageContext where
  "ctx1 = \<lparr>ctx_stationId = ''CS1'', ctx_tenantId = ''T1'', ctx_correlationId = ''c-1''\<rparr>"

definition event ::
  "TransactionEventEnumType \<Rightarrow> string \<Rightarrow> IdTokenType option \<Rightarrow> int option
     \<Rightarrow> MeterValueType list option \<Rightarrow> TransactionEventRequest IMessage" where
  "event et tid tok rid mvs =
     \<lparr>msg_context = ctx1,
      msg_payload = \<lparr>eventType = et, transactionInfo = \<lparr>transactionId = tid\<rparr>,
                     idToken = tok, reservationId = rid, meterValue = mvs\<rparr>\<rparr>"

definition badge :: IdTokenType where
  "badge = \<lparr>idt_idToken = ''ABCD'', idt_type = ''ISO14443''\<rparr>"

definition submission :: "MeterValuesRequest IMessage" where
  "submission =
     \<lparr>msg_context = ctx1,
      msg_payload =
        \<lparr>mvr_evseId = 1,
         mvr_meterValue = [reading ''t3'' 1 None, reading ''t4'' 2 (Some ''tampered'')]\<rparr>\<rparr>"

definition securityLog :: "SecurityEvent list" where
  "securityLog =
     [\<lparr>se_stationId = ''CS1'', se_type = ''FirmwareUpdated'', se_timestamp = 100,
       se_techInfo = None\<rparr>,
      \<lparr>se_stationId = ''CS2'', se_type = ''TamperDetectionActivated'', se_timestamp = 150,
       se_techInfo = None\<rparr>,
      \<lparr>se_stationId = ''CS1'', se_type = ''InvalidMessages'', se_timestamp = 200,
       se_techInfo = Some ''frame 7''\<rparr>,
      \<lparr>se_stationId = ''CS1'', se_type = ''SettingSystemTime'', se_timestamp = 300,
       se_techInfo = None\<rparr>]"

section \<open>Properties\<close>

subsection \<open>Evaluation of the concrete installation\<close>

text \<open>
  \<open>double_eval\<close> computes double arithmetic on numerals; it is applied once no variable is
  left under a rounding.
\<close>

lemmas double_eval = binade.simps fl_def ulp_def roundHalfEven_def fmul_def fdiv_def fadd_def
  roundCost_def Let_def

lemmas cost_eval = depot_def station1_def invoke_def logMsg_def Let_def deriveTotalKwh_def
  Transaction_update_def readAllMeterValuesByTransactionDataBaseId_def sumOfMeterValues_def
  reading_def findByStationId_def calculateTotalCost_def

lemmas handler_eval = handleTransactionEvent_def recordEvent_def authorizedBranch_def
  anonymousBranch_def anonymousResponse_def updatedStep_def endedStep_def event_def ctx1_def
  badge_def createOrUpdateTransactionByTransactionEventAndStationId_def upsertBySpec_def
  updateAllByQuery_def sendCallResultWithMessage_def updateCost_def acceptEvery_def
  authorizerDown_def untampered_def readTransactionByStationIdAndTransactionId_def
  readAllByQuerystring_def truthyBoolean_def truthyString_def truthyNumber_def
  costUpdaterTask_def signatureWarning_def authorizationOutcome_def
  handleMeterValues_def createMeterValue_def terminateReservation_def

subsection \<open>The rounding to doubles\<close>

text \<open>
  \<open>binade\<close> finds the power of two at or below a positive number, and \<open>fl x\<close> is
  a multiple of the spacing at \<open>x\<close> within half that spacing of \<open>x\<close>.
\<close>

lemma binade_bounds:
  "0 < x \<Longrightarrow> 2 powr real_of_int (binade x) \<le> x \<and> x < 2 powr real_of_int (binade x + 1)"
proof (induction x rule: binade.induct)
  case (1 x)
  show ?case
  proof (cases "x < 1")
    case True
    then have b: "binade x = binade (2 * x) - 1"
      using "1.prems" by (subst binade.simps) simp
    have ih: "2 powr real_of_int (binade (2 * x)) \<le> 2 * x
        \<and> 2 * x < 2 powr real_of_int (binade (2 * x) + 1)"
      using "1.IH"(1) "1.prems" True by simp
    have p: "2 powr real_of_int (binade (2 * x)) = 2 * 2 powr real_of_int (binade (2 * x) - 1)"
      by (simp add: powr_diff)
    have q: "2 powr real_of_int (binade (2 * x) + 1) = 2 * 2 powr real_of_int (binade (2 * x))"
      by (simp add: powr_add)
    show ?thesis
      using ih p q unfolding b by simp
  next
    case False
    show ?thesis
    proof (cases "2 \<le> x")
      case True
      then have b: "binade x = binade (x / 2) + 1"
        using "1.prems" False by (subst binade.simps) simp
      have ih: "2 powr real_of_int (binade (x / 2)) \<le> x / 2
          \<and> x / 2 < 2 powr real_of_int (binade (x / 2) + 1)"
        using "1.IH"(2) "1.prems" False True by simp
      have q: "2 powr real_of_int (binade (x / 2) + 1) = 2 * 2 powr real_of_int (binade (x / 2))"
        by (simp add: powr_add)
      have r: "2 powr real_of_int (binade (x / 2) + 1 + 1)
           = 2 * 2 powr real_of_int (binade (x / 2) + 1)"
        by (simp add: powr_add)
      show ?thesis
        using ih q r unfolding b by simp
    next
      case F2: False
      then have b: "binade x = 0"
        using "1.prems" False by (subst binade.simps) simp
      show ?thesis
        using False F2 unfolding b by simp
    qed
  qed
qed

lemma roundHalfEven_near: "\<bar>real_of_int (roundHalfEven y) - y\<bar> \<le> 1 / 2"
  unfolding roundHalfEven_def Let_def by (auto simp: abs_if) linarith+

lemma ulp_pos: "0 < ulp x"
  by (simp add: ulp_def Let_def)

lemma fl_near: "\<bar>fl x - x\<bar> \<le> ulp x / 2"
proof -
  let ?r = "real_of_int (roundHalfEven (x / ulp x))"
  have u: "0 < ulp x"
    by (rule ulp_pos)
  have "fl x - x = (?r - x / ulp x) * ulp x"
    using u by (simp add: fl_def left_diff_distrib)
  then have e: "\<bar>fl x - x\<bar> = \<bar>?r - x / ulp x\<bar> * ulp x"
    using u by (simp add: abs_mult)
  have "\<bar>?r - x / ulp x\<bar> * ulp x \<le> 1 / 2 * ulp x"
    using roundHalfEven_near [of "x / ulp x"] u by (simp add: mult_right_mono)
  then show ?thesis
    unfolding e by simp
qed

subsection \<open>The cost calculator, case by case\<close>

lemma calculateTotalCost_supplied:
  assumes "findByStationId stationId w = Some tariff" and "k \<noteq> 0"
  shows "calculateTotalCost e stationId dbId (Some k) w =
     (roundCost (fmul k (pricePerKwh tariff)),
      w\<lparr>logs := logs w @ [(LDebug, ''Tariff found for station''), (LDebug, ''TotalKwh'')],
        calls := calls w @ [FindTariffByStationId stationId]\<rparr>)"
  using assms
  by (simp add: calculateTotalCost_def findByStationId_def invoke_def logMsg_def Let_def)

lemma calculateTotalCost_derived:
  assumes "findByStationId stationId w = Some tariff"
    and "totalKwh = None \<or> totalKwh = Some 0"
  shows "calculateTotalCost e stationId dbId totalKwh w =
     (roundCost (fmul (getTotalKwh e (readAllMeterValuesByTransactionDataBaseId dbId w))
                   (pricePerKwh tariff)),
      w\<lparr>transactions :=
           map (\<lambda>t. if tx_id t = dbId
                     then t\<lparr>tx_totalKwh :=
                            Some (getTotalKwh e
                                    (readAllMeterValuesByTransactionDataBaseId dbId w))\<rparr>
                     else t)
             (transactions w),
        logs := logs w @ [(LDebug, ''Tariff found for station''), (LDebug, ''TotalKwh'')],
        calls := calls w
                 @ [FindTariffByStationId stationId, ReadAllMeterValues dbId,
                    UpdateTransactionTotalKwh dbId
                      (getTotalKwh e (readAllMeterValuesByTransactionDataBaseId dbId w))]\<rparr>)"
  using assms
  by (auto simp add: calculateTotalCost_def findByStationId_def invoke_def logMsg_def Let_def
        deriveTotalKwh_def Transaction_update_def readAllMeterValuesByTransactionDataBaseId_def)

lemma calculateTotalCost_without_tariff:
  assumes "findByStationId stationId w = None"
  shows "calculateTotalCost e stationId dbId totalKwh w =
     (0, w\<lparr>logs := logs w @ [(LError, ''Tariff not found for station'')],
            calls := calls w @ [FindTariffByStationId stationId]\<rparr>)"
  using assms
  by (simp add: calculateTotalCost_def findByStationId_def invoke_def logMsg_def)

subsection \<open>What the cost steps leave untouched\<close>

lemma forgetKwh_update:
  "map forgetKwh (map (\<lambda>t. if tx_id t = dbId then t\<lparr>tx_totalKwh := Some kwh\<rparr> else t) ts)
     = map forgetKwh ts"
  by (induction ts) (simp_all add: forgetKwh_def)

lemma costOnly_refl: "costOnly w w"
  by (simp add: costOnly_def)

lemma costOnly_trans:
  assumes "costOnly w w'" and "costOnly w' w''"
  shows "costOnly w w''"
proof -
  from assms(1) obtain ls cs where
    1: "logs w' = logs w @ ls" "filter (\<lambda>entry. fst entry = LWarn) ls = []"
       "calls w' = calls w @ cs" "filter isReservationUpdate cs = []"
    unfolding costOnly_def by blast
  from assms(2) obtain ls' cs' where
    2: "logs w'' = logs w' @ ls'" "filter (\<lambda>entry. fst entry = LWarn) ls' = []"
       "calls w'' = calls w' @ cs'" "filter isReservationUpdate cs' = []"
    unfolding costOnly_def by blast
  have l: "logs w'' = logs w @ (ls @ ls') \<and> filter (\<lambda>entry. fst entry = LWarn) (ls @ ls') = []"
    using 1 2 by simp
  have c: "calls w'' = calls w @ (cs @ cs') \<and> filter isReservationUpdate (cs @ cs') = []"
    using 1 2 by simp
  have rest: "map forgetKwh (transactions w'') = map forgetKwh (transactions w)
     \<and> reservations w'' = reservations w \<and> meterValues w'' = meterValues w
     \<and> tariffs w'' = tariffs w \<and> variableAttributes w'' = variableAttributes w
     \<and> timers w'' = timers w \<and> sentResults w'' = sentResults w \<and> sentCalls w'' = sentCalls w"
    using assms unfolding costOnly_def by simp
  show ?thesis
    unfolding costOnly_def using rest l c by blast
qed

lemma costOnly_log: "l \<noteq> LWarn \<Longrightarrow> costOnly w (logMsg l s w)"
  by (simp add: costOnly_def logMsg_def)

lemma costOnly_invoke: "\<not> isReservationUpdate c \<Longrightarrow> costOnly w (invoke c w)"
  by (simp add: costOnly_def invoke_def)

lemma costOnly_Transaction_update: "costOnly w (Transaction_update kwh dbId w)"
  using forgetKwh_update [of dbId kwh "transactions w"]
  by (simp add: costOnly_def Transaction_update_def invoke_def)

lemma costOnly_deriveTotalKwh: "costOnly w (snd (deriveTotalKwh e dbId w))"
  unfolding deriveTotalKwh_def Let_def snd_conv
  by (rule costOnly_trans [OF costOnly_invoke costOnly_Transaction_update]) simp

lemma costOnly_calculateTotalCost:
  "costOnly w (snd (calculateTotalCost e stationId dbId totalKwh w))"
proof -
  let ?w1 = "invoke (FindTariffByStationId stationId) w"
  have 1: "costOnly w ?w1"
    by (rule costOnly_invoke) simp
  show ?thesis
  proof (cases "findByStationId stationId ?w1")
    case None
    then have "snd (calculateTotalCost e stationId dbId totalKwh w)
       = logMsg LError ''Tariff not found for station'' ?w1"
      by (simp add: calculateTotalCost_def)
    then show ?thesis
      using costOnly_trans [OF 1 costOnly_log [of LError]] by simp
  next
    case (Some tariff)
    let ?w2 = "logMsg LDebug ''Tariff found for station'' ?w1"
    have 2: "costOnly w ?w2"
      using costOnly_trans [OF 1 costOnly_log [of LDebug]] by simp
    show ?thesis
    proof (cases "totalKwh = None \<or> totalKwh = Some 0")
      case True
      then have "snd (calculateTotalCost e stationId dbId totalKwh w)
         = logMsg LDebug ''TotalKwh'' (snd (deriveTotalKwh e dbId ?w2))"
        using Some by (auto simp add: calculateTotalCost_def Let_def split: prod.splits)
      moreover have "costOnly w (logMsg LDebug ''TotalKwh'' (snd (deriveTotalKwh e dbId ?w2)))"
        by (rule costOnly_trans [OF 2 costOnly_trans [OF costOnly_deriveTotalKwh costOnly_log]])
           simp
      ultimately show ?thesis by simp
    next
      case False
      then obtain k where k: "totalKwh = Some k" "k \<noteq> 0"
        by (cases totalKwh) auto
      have "snd (calculateTotalCost e stationId dbId totalKwh w) = logMsg LDebug ''TotalKwh'' ?w2"
        using Some k by (simp add: calculateTotalCost_def Let_def)
      moreover have "costOnly w (logMsg LDebug ''TotalKwh'' ?w2)"
        by (rule costOnly_trans [OF 2 costOnly_log]) simp
      ultimately show ?thesis by simp
    qed
  qed
qed

lemma costOnly_endedStep:
  "costOnly w (snd (endedStep e stationId transaction response w))"
proof (cases transaction)
  case None
  then show ?thesis by (simp add: endedStep_def costOnly_refl)
next
  case (Some t)
  then have "snd (endedStep e stationId transaction response w)
      = snd (calculateTotalCost e stationId (tx_id t) (tx_totalKwh t) w)"
    by (simp add: endedStep_def Let_def split: prod.splits)
  then show ?thesis
    by (simp add: costOnly_calculateTotalCost)
qed

lemma costOnly_updatedStep:
  "costOnly w (snd (updatedStep e stationId transaction response w))"
proof -
  define w1 where "w1 =
     (case transaction of
        None \<Rightarrow> w
      | Some t \<Rightarrow>
          if tx_isActive t \<and> truthyBoolean (sendCostUpdatedOnMeterValue e)
          then snd (calculateTotalCost e stationId (tx_id t) (tx_totalKwh t) w)
          else w)"
  have 1: "costOnly w w1"
    unfolding w1_def
    by (simp add: costOnly_refl costOnly_calculateTotalCost split: option.splits)
  let ?w2 = "invoke (ReadVariableAttributes stationId) w1"
  have 2: "costOnly w ?w2"
    by (rule costOnly_trans [OF 1 costOnly_invoke]) simp
  have 3: "costOnly w (logMsg LDebug ''Checking if updated tariff information is available'' ?w2)"
    by (rule costOnly_trans [OF 2 costOnly_log]) simp
  have "snd (updatedStep e stationId transaction response w) = ?w2
      \<or> snd (updatedStep e stationId transaction response w)
          = logMsg LDebug ''Checking if updated tariff information is available'' ?w2"
    unfolding updatedStep_def w1_def
    by (simp add: Let_def split: option.splits prod.splits)
  then show ?thesis
    using 2 3 by auto
qed

lemma costOnly_anonymousResponse:
  "costOnly w (snd (anonymousResponse e message w))"
proof -
  let ?sid = "ctx_stationId (msg_context message)"
  let ?tid = "transactionId (transactionInfo (msg_payload message))"
  let ?w1 = "invoke (ReadTransaction ?sid ?tid) w"
  have 1: "costOnly w ?w1"
    by (rule costOnly_invoke) simp
  show ?thesis
  proof (cases "eventType (msg_payload message)")
    case Ended
    then have "snd (anonymousResponse e message w)
       = snd (endedStep e ?sid (readTransactionByStationIdAndTransactionId ?sid ?tid ?w1)
               \<lparr>totalCost = None, chargingPriority = None, idTokenInfo = None\<rparr> ?w1)"
      by (simp add: anonymousResponse_def Let_def)
    then show ?thesis
      using costOnly_trans [OF 1 costOnly_endedStep] by simp
  next
    case Started
    then have "snd (anonymousResponse e message w) = ?w1"
      by (simp add: anonymousResponse_def Let_def)
    then show ?thesis
      using 1 by simp
  next
    case Updated
    then have "snd (anonymousResponse e message w)
       = snd (updatedStep e ?sid (readTransactionByStationIdAndTransactionId ?sid ?tid ?w1)
               \<lparr>totalCost = None, chargingPriority = None, idTokenInfo = None\<rparr> ?w1)"
      by (simp add: anonymousResponse_def Let_def split: prod.splits)
    then show ?thesis
      using costOnly_trans [OF 1 costOnly_updatedStep] by simp
  qed
qed

subsection \<open>The first part of the TransactionEvent handler, field by field\<close>

lemma recordEvent_fields:
  "timers (recordEvent e message w) = timers w"
  "sentResults (recordEvent e message w) = sentResults w"
  "logs (recordEvent e message w) = logs w @ [(LDebug, ''Transaction event received:'')]"
  "transactions (recordEvent e message w)
     = fst (upsertTransaction e (msg_payload message) (ctx_stationId (msg_context message))
              (transactions w, meterValues w))"
  by (simp_all add: recordEvent_def Let_def logMsg_def invoke_def updateAllByQuery_def
        createOrUpdateTransactionByTransactionEventAndStationId_def
        split: option.splits prod.splits)

lemma recordEvent_reservations:
  "reservations (recordEvent e message w) =
     (case reservationId (msg_payload message) of
        None \<Rightarrow> reservations w
      | Some rid \<Rightarrow>
          if rid \<noteq> 0
          then map (terminateReservation rid (ctx_stationId (msg_context message))
                      (transactionId (transactionInfo (msg_payload message))))
                 (reservations w)
          else reservations w)"
  by (simp add: recordEvent_def Let_def logMsg_def invoke_def updateAllByQuery_def
        createOrUpdateTransactionByTransactionEventAndStationId_def terminateReservation_def
        split: option.splits prod.splits)

lemma recordEvent_calls:
  "calls (recordEvent e message w) =
     calls w
     @ CreateOrUpdateTransaction (msg_payload message) (ctx_stationId (msg_context message))
     # (case reservationId (msg_payload message) of
          None \<Rightarrow> []
        | Some rid \<Rightarrow>
            if rid \<noteq> 0
            then [UpdateAllReservations rid (ctx_stationId (msg_context message))
                    (transactionId (transactionInfo (msg_payload message)))]
            else [])"
  by (simp add: recordEvent_def Let_def logMsg_def invoke_def updateAllByQuery_def
        createOrUpdateTransactionByTransactionEventAndStationId_def
        split: option.splits prod.splits)

subsection \<open>The two branches\<close>

lemma authorizedBranch_timers:
  "timers (snd (authorizedBranch e message w)) =
     timers w
     @ (case costUpdatedInterval e of
          None \<Rightarrow> []
        | Some interval \<Rightarrow>
            if eventType (msg_payload message) = Started
               \<and> isAccepted (authorizeIdToken e (msg_payload message) (msg_context message)
                    (invoke (AuthorizeIdToken (msg_payload message) (msg_context message)) w))
               \<and> interval \<noteq> 0
            then [costUpdaterTask message interval] else [])"
proof (cases "authorizeIdToken e (msg_payload message) (msg_context message)
                (invoke (AuthorizeIdToken (msg_payload message) (msg_context message)) w)")
  case (Inl err)
  then show ?thesis
    by (cases "costUpdatedInterval e")
       (simp_all add: authorizedBranch_def Let_def invoke_def)
next
  case (Inr response)
  then show ?thesis
    by (cases "costUpdatedInterval e")
       (simp_all add: authorizedBranch_def Let_def invoke_def sendCallResultWithMessage_def
          updateCost_def costUpdaterTask_def)
qed

lemma authorizedBranch_frame:
  "map forgetKwh (transactions (snd (authorizedBranch e message w))) = map forgetKwh (transactions w)
   \<and> reservations (snd (authorizedBranch e message w)) = reservations w
   \<and> (\<exists>cs. calls (snd (authorizedBranch e message w)) = calls w @ cs
        \<and> filter isReservationUpdate cs = [])"
  by (simp add: authorizedBranch_def Let_def invoke_def sendCallResultWithMessage_def
        updateCost_def split: sum.splits option.splits)

lemma anonymousBranch_frame:
  "map forgetKwh (transactions (snd (anonymousBranch e message w))) = map forgetKwh (transactions w)
   \<and> reservations (snd (anonymousBranch e message w)) = reservations w
   \<and> (\<exists>cs. calls (snd (anonymousBranch e message w)) = calls w @ cs
        \<and> filter isReservationUpdate cs = [])"
proof -
  obtain response w3 where r: "anonymousResponse e message w = (response, w3)"
    by (cases "anonymousResponse e message w")
  have c: "costOnly w w3"
    using costOnly_anonymousResponse [of w e message] r by simp
  then obtain cs where cs: "calls w3 = calls w @ cs" "filter isReservationUpdate cs = []"
    unfolding costOnly_def by blast
  have t: "map forgetKwh (transactions w3) = map forgetKwh (transactions w)"
    and v: "reservations w3 = reservations w"
    using c unfolding costOnly_def by simp_all
  let ?w' = "snd (anonymousBranch e message w)"
  have f: "transactions ?w' = transactions w3 \<and> reservations ?w' = reservations w3"
    by (simp add: anonymousBranch_def r Let_def invoke_def sendCallResultWithMessage_def
          logMsg_def split: sum.splits option.splits)
  have "\<exists>ds. calls ?w' = calls w3 @ ds \<and> filter isReservationUpdate ds = []"
    by (simp add: anonymousBranch_def r Let_def invoke_def sendCallResultWithMessage_def
          logMsg_def split: sum.splits option.splits)
  then obtain ds where ds: "calls ?w' = calls w3 @ ds" "filter isReservationUpdate ds = []"
    by blast
  have "calls ?w' = calls w @ (cs @ ds) \<and> filter isReservationUpdate (cs @ ds) = []"
    using cs ds by simp
  then have c': "\<exists>cs. calls ?w' = calls w @ cs \<and> filter isReservationUpdate cs = []"
    by (rule exI)
  have a: "map forgetKwh (transactions ?w') = map forgetKwh (transactions w)"
    using f t by simp
  have b: "reservations ?w' = reservations w"
    using f v by simp
  show ?thesis
    using a b c' by simp
qed

lemma branches_frame:
  "map forgetKwh (transactions (snd (handleTransactionEvent e message w)))
      = map forgetKwh (transactions (recordEvent e message w))
   \<and> reservations (snd (handleTransactionEvent e message w))
      = reservations (recordEvent e message w)
   \<and> (\<exists>cs. calls (snd (handleTransactionEvent e message w))
               = calls (recordEvent e message w) @ cs
        \<and> filter isReservationUpdate cs = [])"
proof (cases "idToken (msg_payload message)")
  case None
  then have "handleTransactionEvent e message w
      = anonymousBranch e message (recordEvent e message w)"
    by (simp add: handleTransactionEvent_def)
  then show ?thesis
    using anonymousBranch_frame [of e message "recordEvent e message w"] by simp
next
  case (Some tok)
  then have "handleTransactionEvent e message w
      = authorizedBranch e message (recordEvent e message w)"
    by (simp add: handleTransactionEvent_def)
  then show ?thesis
    using authorizedBranch_frame [of e message "recordEvent e message w"] by simp
qed

lemma foldl_createMeterValue:
  "foldl (\<lambda>acc m. createMeterValue m acc) w mvs =
     w\<lparr>meterValues := meterValues w
            @ map (\<lambda>m. \<lparr>smv_transactionDatabaseId = None, smv_meterValue = m\<rparr>) mvs,
        calls := calls w @ map CreateMeterValue mvs\<rparr>"
proof (induction mvs arbitrary: w)
  case Nil
  show ?case by simp
next
  case (Cons m mvs)
  show ?case
    by (simp add: Cons.IH) (simp add: createMeterValue_def invoke_def)
qed

subsection \<open>Rounding\<close>

text \<open>
  The examples of the documentation and of the spec: 1.2378 gives 1.23 and 1.005 gives
  1.00, as doubles. And a cost that is a product of doubles: 4.6 kWh at 0.05 is the
  double 0.22999999999999998, which the function takes up to 0.23.
\<close>

lemma roundCost_examples:
  "roundCost (fl 1.2378) = fl 1.23 \<and> roundCost (fl 1.005) = 1
   \<and> roundCost (fmul (fl 4.6) (fl 0.05)) = fl 0.23
   \<and> fmul (fl 4.6) (fl 0.05) < fl 0.23"
  by (simp add: double_eval)

text \<open>
  C6. The claim: for every cost value \<open>c\<close> the rounding function returns
  \<open>floor (c * 100) / 100\<close>, always downward to two decimal places. The function at
  the double 0.049999999999999996, which is \<open>7205759403792793 / 2^57\<close>: the product
  with 100 rounds up to the double 5, whose floor is 5, and the function returns the
  double 0.05, which is \<open>7205759403792794 / 2^57\<close> and lies above the cost, where
  \<open>floor (c * 100) / 100\<close> is 0.04.
\<close>

theorem roundCost_above_cost:
  "fl (7205759403792793 / 2 ^ 57) = 7205759403792793 / 2 ^ 57
   \<and> fmul (7205759403792793 / 2 ^ 57) 100 = 5
   \<and> roundCost (7205759403792793 / 2 ^ 57) = 7205759403792794 / 2 ^ 57
   \<and> roundCost (7205759403792793 / 2 ^ 57) = fl 0.05
   \<and> (7205759403792793 / 2 ^ 57 :: real) < roundCost (7205759403792793 / 2 ^ 57)
   \<and> real_of_int \<lfloor>(7205759403792793 / 2 ^ 57 :: real) * 100\<rfloor> / 100 = 0.04"
  by (simp add: double_eval)

subsection \<open>Cost calculator\<close>

text \<open>
  C4, as amended. For every call to the cost calculator where an active tariff exists
  for the station: if a kWh total other than 0 is supplied, the result is the rounding
  function applied to the product of the supplied total and the price per kWh, nothing
  is derived from meter values and the transaction record is not written (the only call
  is the tariff lookup); if no total is supplied, the total is the sum of all meter
  values recorded against the transaction database id, that total is written onto the
  transaction record with that id, and the result is the rounding function applied to
  the product of the derived total and the price per kWh. The sum is what the spec says
  of \<open>MeterValueUtils.getTotalKwh\<close>, which the hypothesis takes the module to use. The
  products are double products and the rounding function is the one of the module, as it
  computes on doubles.
\<close>

theorem calculateTotalCost_with_tariff:
  assumes "findByStationId stationId w = Some tariff"
    and "getTotalKwh e = sumOfMeterValues"
  shows "(k \<noteq> 0 \<longrightarrow>
            calculateTotalCost e stationId dbId (Some k) w =
              (roundCost (fmul k (pricePerKwh tariff)),
               w\<lparr>logs := logs w @ [(LDebug, ''Tariff found for station''),
                                    (LDebug, ''TotalKwh'')],
                 calls := calls w @ [FindTariffByStationId stationId]\<rparr>))
   \<and> calculateTotalCost e stationId dbId None w =
       (roundCost (fmul (sumOfMeterValues (readAllMeterValuesByTransactionDataBaseId dbId w))
                     (pricePerKwh tariff)),
        w\<lparr>transactions :=
             map (\<lambda>t. if tx_id t = dbId
                       then t\<lparr>tx_totalKwh :=
                              Some (sumOfMeterValues
                                      (readAllMeterValuesByTransactionDataBaseId dbId w))\<rparr>
                       else t)
               (transactions w),
          logs := logs w @ [(LDebug, ''Tariff found for station''), (LDebug, ''TotalKwh'')],
          calls := calls w
                   @ [FindTariffByStationId stationId, ReadAllMeterValues dbId,
                      UpdateTransactionTotalKwh dbId
                        (sumOfMeterValues
                           (readAllMeterValuesByTransactionDataBaseId dbId w))]\<rparr>)"
proof -
  have a: "k \<noteq> 0 \<longrightarrow>
            calculateTotalCost e stationId dbId (Some k) w =
              (roundCost (fmul k (pricePerKwh tariff)),
               w\<lparr>logs := logs w @ [(LDebug, ''Tariff found for station''),
                                    (LDebug, ''TotalKwh'')],
                 calls := calls w @ [FindTariffByStationId stationId]\<rparr>)"
    using calculateTotalCost_supplied [OF assms(1)] by simp
  show ?thesis
    using a calculateTotalCost_derived [OF assms(1), of None e dbId] assms(2) by simp
qed

text \<open>
  The scenario of the spec: tariff 0.30 per kWh, meter values of transaction 42 summing
  to 12.5 kWh give 3.75; the cached total 10.0 passed explicitly gives 3.00 and leaves
  the transaction records as they are.
\<close>

theorem calculateTotalCost_with_tariff_witness:
  "findByStationId ''CS1'' depot
       = Some \<lparr>tariff_id = 1, tariff_stationId = ''CS1'', pricePerKwh = fl 0.30\<rparr>
   \<and> getTotalKwh station1 = sumOfMeterValues
   \<and> (10::real) \<noteq> 0
   \<and> sumOfMeterValues (readAllMeterValuesByTransactionDataBaseId 42 depot) = 12.5
   \<and> fst (calculateTotalCost station1 ''CS1'' 42 None depot) = 3.75
   \<and> map tx_totalKwh (transactions (snd (calculateTotalCost station1 ''CS1'' 42 None depot)))
       = [Some 12.5]
   \<and> fst (calculateTotalCost station1 ''CS1'' 42 (Some 10) depot) = 3.00
   \<and> transactions (snd (calculateTotalCost station1 ''CS1'' 42 (Some 10) depot))
       = transactions depot"
proof -
  have h: "findByStationId ''CS1'' depot
       = Some \<lparr>tariff_id = 1, tariff_stationId = ''CS1'', pricePerKwh = fl 0.30\<rparr>"
    by (simp add: findByStationId_def depot_def)
  have g: "getTotalKwh station1 = sumOfMeterValues"
    by (simp add: station1_def)
  note t = calculateTotalCost_with_tariff [OF h g, of 10 42]
  have s: "sumOfMeterValues (readAllMeterValuesByTransactionDataBaseId 42 depot) = 12.5"
    by (simp add: depot_def readAllMeterValuesByTransactionDataBaseId_def
          sumOfMeterValues_def reading_def)
       (simp add: double_eval)
  have n: "calculateTotalCost station1 ''CS1'' 42 None depot =
       (roundCost (fmul 12.5 (fl 0.30)),
        depot\<lparr>transactions :=
             map (\<lambda>t. if tx_id t = 42 then t\<lparr>tx_totalKwh := Some 12.5\<rparr> else t)
               (transactions depot),
          logs := logs depot
                  @ [(LDebug, ''Tariff found for station''), (LDebug, ''TotalKwh'')],
          calls := calls depot
                   @ [FindTariffByStationId ''CS1'', ReadAllMeterValues 42,
                      UpdateTransactionTotalKwh 42 12.5]\<rparr>)"
    using t [THEN conjunct2] by (simp add: s)
  have c: "roundCost (fmul 12.5 (fl 0.30)) = 3.75"
    by (simp add: double_eval)
  have d: "roundCost (fmul 10 (fl 0.30)) = 3.00"
    by (simp add: double_eval)
  have a1: "fst (calculateTotalCost station1 ''CS1'' 42 None depot) = 3.75"
    by (simp only: n fst_conv c)
  have a2: "map tx_totalKwh
              (transactions (snd (calculateTotalCost station1 ''CS1'' 42 None depot)))
       = [Some 12.5]"
    by (simp only: n snd_conv) (simp add: depot_def)
  have k: "calculateTotalCost station1 ''CS1'' 42 (Some 10) depot =
              (roundCost (fmul 10 (fl 0.30)),
               depot\<lparr>logs := logs depot @ [(LDebug, ''Tariff found for station''),
                                            (LDebug, ''TotalKwh'')],
                 calls := calls depot @ [FindTariffByStationId ''CS1'']\<rparr>)"
    using t [THEN conjunct1] by simp
  have a3: "fst (calculateTotalCost station1 ''CS1'' 42 (Some 10) depot) = 3.00"
    by (simp only: k fst_conv d)
  have a4: "transactions (snd (calculateTotalCost station1 ''CS1'' 42 (Some 10) depot))
       = transactions depot"
    by (simp only: k snd_conv) simp
  show ?thesis
    using h g s a1 a2 a3 a4 by simp
qed

text \<open>
  C4 as stated fails for a supplied total of 0: the claim gives the rounding of
  \<open>0 * 0.30\<close>, which is 0, and no derivation; the code derives 12.5 kWh from the
  meter values, returns 3.75 and writes the transaction record. And the arithmetic of
  the claim is that of doubles: for a supplied total of 3 kWh the double product with
  0.30 is 0.8999999999999999 and the result is 0.89, where the exact product gives 0.90.
\<close>

theorem calculateTotalCost_supplied_zero_counterexample:
  "fst (calculateTotalCost station1 ''CS1'' 42 (Some 0) depot) = 3.75
   \<and> roundCost (fmul 0 (fl 0.30)) = 0
   \<and> transactions (snd (calculateTotalCost station1 ''CS1'' 42 (Some 0) depot))
       \<noteq> transactions depot
   \<and> fst (calculateTotalCost station1 ''CS1'' 42 (Some 3) depot) = fl 0.89
   \<and> real_of_int \<lfloor>(3 * 0.30 * 100 :: real)\<rfloor> / 100 = 0.90"
  by (simp add: cost_eval) (simp add: double_eval)

text \<open>
  C5. For every station that has no active tariff record the cost calculator returns 0
  whatever kWh total is supplied; the only call it makes is the tariff lookup and it adds
  one error log entry, so nothing is derived and no record is written. The calculator has
  no failing outcome.
\<close>

theorem calculateTotalCost_no_tariff:
  assumes "findByStationId stationId w = None"
  shows "calculateTotalCost e stationId dbId totalKwh w =
     (0, w\<lparr>logs := logs w @ [(LError, ''Tariff not found for station'')],
            calls := calls w @ [FindTariffByStationId stationId]\<rparr>)"
  using calculateTotalCost_without_tariff [OF assms] .

theorem calculateTotalCost_no_tariff_witness:
  "findByStationId ''CS9'' depot = None
   \<and> calculateTotalCost station1 ''CS9'' 42 (Some 10) depot
      = (0, depot\<lparr>logs := [(LError, ''Tariff not found for station'')],
                  calls := [FindTariffByStationId ''CS9'']\<rparr>)
   \<and> transactions (snd (calculateTotalCost station1 ''CS9'' 42 (Some 10) depot))
      = transactions depot"
proof -
  have h: "findByStationId ''CS9'' depot = None"
    by (simp add: findByStationId_def depot_def)
  show ?thesis
    using h calculateTotalCost_no_tariff [OF h, of station1 42 "Some 10"]
    by (simp add: depot_def)
qed

text \<open>
  C9. If the cost calculator is called with a supplied kWh total equal to 0 while a
  tariff exists, the supplied value is not used: the outcome is the one of a call with
  no total (null and undefined are both the absent total), the total being derived from
  the meter values of the transaction and written onto the transaction record. The
  shortcut applies only to nonzero totals: the call stops at the tariff lookup exactly
  when the supplied total is not 0.
\<close>

theorem calculateTotalCost_zero_total_rederived:
  assumes "findByStationId stationId w = Some tariff"
  shows "calculateTotalCost e stationId dbId (Some 0) w
       = calculateTotalCost e stationId dbId None w
   \<and> calculateTotalCost e stationId dbId (Some 0) w =
       (roundCost (fmul (getTotalKwh e (readAllMeterValuesByTransactionDataBaseId dbId w))
                     (pricePerKwh tariff)),
        w\<lparr>transactions :=
             map (\<lambda>t. if tx_id t = dbId
                       then t\<lparr>tx_totalKwh :=
                              Some (getTotalKwh e
                                      (readAllMeterValuesByTransactionDataBaseId dbId w))\<rparr>
                       else t)
               (transactions w),
          logs := logs w @ [(LDebug, ''Tariff found for station''), (LDebug, ''TotalKwh'')],
          calls := calls w
                   @ [FindTariffByStationId stationId, ReadAllMeterValues dbId,
                      UpdateTransactionTotalKwh dbId
                        (getTotalKwh e (readAllMeterValuesByTransactionDataBaseId dbId w))]\<rparr>)
   \<and> (calls (snd (calculateTotalCost e stationId dbId (Some k) w))
         = calls w @ [FindTariffByStationId stationId]) = (k \<noteq> 0)"
proof -
  have z: "calculateTotalCost e stationId dbId (Some 0) w =
       (roundCost (fmul (getTotalKwh e (readAllMeterValuesByTransactionDataBaseId dbId w))
                     (pricePerKwh tariff)),
        w\<lparr>transactions :=
             map (\<lambda>t. if tx_id t = dbId
                       then t\<lparr>tx_totalKwh :=
                              Some (getTotalKwh e
                                      (readAllMeterValuesByTransactionDataBaseId dbId w))\<rparr>
                       else t)
               (transactions w),
          logs := logs w @ [(LDebug, ''Tariff found for station''), (LDebug, ''TotalKwh'')],
          calls := calls w
                   @ [FindTariffByStationId stationId, ReadAllMeterValues dbId,
                      UpdateTransactionTotalKwh dbId
                        (getTotalKwh e (readAllMeterValuesByTransactionDataBaseId dbId w))]\<rparr>)"
    using calculateTotalCost_derived [OF assms, of "Some 0" e dbId] by simp
  have n: "calculateTotalCost e stationId dbId (Some 0) w
       = calculateTotalCost e stationId dbId None w"
    using z calculateTotalCost_derived [OF assms, of None e dbId] by simp
  have s: "(calls (snd (calculateTotalCost e stationId dbId (Some k) w))
         = calls w @ [FindTariffByStationId stationId]) = (k \<noteq> 0)"
  proof (cases "k = 0")
    case True
    then show ?thesis
      using z by simp
  next
    case False
    then show ?thesis
      using calculateTotalCost_supplied [OF assms False, of e dbId] by simp
  qed
  show ?thesis
    using z n s by simp
qed

theorem calculateTotalCost_zero_total_rederived_witness:
  "findByStationId ''CS1'' depot
       = Some \<lparr>tariff_id = 1, tariff_stationId = ''CS1'', pricePerKwh = fl 0.30\<rparr>
   \<and> calculateTotalCost station1 ''CS1'' 42 (Some 0) depot
       = calculateTotalCost station1 ''CS1'' 42 None depot
   \<and> fst (calculateTotalCost station1 ''CS1'' 42 (Some 0) depot) = 3.75
   \<and> map tx_totalKwh
        (transactions (snd (calculateTotalCost station1 ''CS1'' 42 (Some 0) depot)))
       = [Some 12.5]"
proof -
  have h: "findByStationId ''CS1'' depot
       = Some \<lparr>tariff_id = 1, tariff_stationId = ''CS1'', pricePerKwh = fl 0.30\<rparr>"
    by (simp add: findByStationId_def depot_def)
  note t = calculateTotalCost_zero_total_rederived [OF h, of station1 42 10]
  have a: "calculateTotalCost station1 ''CS1'' 42 (Some 0) depot
       = calculateTotalCost station1 ''CS1'' 42 None depot"
    by (rule t [THEN conjunct1])
  have b: "fst (calculateTotalCost station1 ''CS1'' 42 (Some 0) depot) = 3.75"
    apply (simp only: t [THEN conjunct2, THEN conjunct1] fst_conv)
    apply (simp add: depot_def station1_def readAllMeterValuesByTransactionDataBaseId_def
          sumOfMeterValues_def reading_def)
    apply (simp add: double_eval)
    done
  have c: "map tx_totalKwh
        (transactions (snd (calculateTotalCost station1 ''CS1'' 42 (Some 0) depot)))
       = [Some 12.5]"
    apply (simp only: t [THEN conjunct2, THEN conjunct1] snd_conv)
    apply (simp add: depot_def station1_def readAllMeterValuesByTransactionDataBaseId_def
          sumOfMeterValues_def reading_def)
    apply (simp add: double_eval)
    done
  show ?thesis
    using h a b c by simp
qed

subsection \<open>Periodic cost updater\<close>

text \<open>
  C1, as amended. For every TransactionEvent message that carries an identity token,
  one periodic cost-updater task is armed for that transaction if and only if the event
  type is Started, the authorization result status is Accepted, and the configured
  cost-update interval is defined and different from 0; when the configured interval is
  0 or undefined, no task is armed. The task is the only timer the handler adds, and its
  delay is the interval times 1000.
\<close>

theorem costUpdater_armed_iff_interval_nonzero:
  assumes "idToken (msg_payload message) = Some tok"
  shows "timers (snd (handleTransactionEvent e message w)) =
       timers w
       @ (case costUpdatedInterval e of
            None \<Rightarrow> []
          | Some interval \<Rightarrow>
              if eventType (msg_payload message) = Started
                 \<and> isAccepted (authorizationOutcome e message w)
                 \<and> interval \<noteq> 0
              then [costUpdaterTask message interval] else [])
   \<and> (timers (snd (handleTransactionEvent e message w)) \<noteq> timers w)
       = (eventType (msg_payload message) = Started
          \<and> isAccepted (authorizationOutcome e message w)
          \<and> truthyNumber (costUpdatedInterval e))"
proof -
  have a: "timers (snd (handleTransactionEvent e message w)) =
       timers w
       @ (case costUpdatedInterval e of
            None \<Rightarrow> []
          | Some interval \<Rightarrow>
              if eventType (msg_payload message) = Started
                 \<and> isAccepted (authorizationOutcome e message w)
                 \<and> interval \<noteq> 0
              then [costUpdaterTask message interval] else [])"
    using assms unfolding authorizationOutcome_def
    by (simp add: handleTransactionEvent_def Let_def authorizedBranch_timers
          recordEvent_fields)
  have b: "(timers (snd (handleTransactionEvent e message w)) \<noteq> timers w)
       = (eventType (msg_payload message) = Started
          \<and> isAccepted (authorizationOutcome e message w)
          \<and> truthyNumber (costUpdatedInterval e))"
    unfolding a by (cases "costUpdatedInterval e") (simp_all add: truthyNumber_def)
  show ?thesis
    using a b by simp
qed

theorem costUpdater_armed_iff_interval_nonzero_witness:
  "idToken (msg_payload (event Started ''TX99'' (Some badge) None None)) = Some badge
   \<and> isAccepted (authorizationOutcome station1
                   (event Started ''TX99'' (Some badge) None None) depot)
   \<and> timers (snd (handleTransactionEvent station1
                 (event Started ''TX99'' (Some badge) None None) depot))
       = [\<lparr>it_stationId = ''CS1'', it_transactionId = ''TX99'', it_tenantId = ''T1'',
           it_delayMs = 60000\<rparr>]"
proof -
  have h: "idToken (msg_payload (event Started ''TX99'' (Some badge) None None)) = Some badge"
    by (simp add: event_def)
  note t = costUpdater_armed_iff_interval_nonzero
             [OF h, of station1 depot, THEN conjunct1]
  have a: "isAccepted (authorizationOutcome station1
                   (event Started ''TX99'' (Some badge) None None) depot)"
    by (simp add: authorizationOutcome_def station1_def acceptEvery_def)
  have b: "timers (snd (handleTransactionEvent station1
                 (event Started ''TX99'' (Some badge) None None) depot))
       = [\<lparr>it_stationId = ''CS1'', it_transactionId = ''TX99'', it_tenantId = ''T1'',
           it_delayMs = 60000\<rparr>]"
    unfolding t using a
    by (simp add: station1_def depot_def event_def ctx1_def costUpdaterTask_def)
       (simp add: double_eval)
  show ?thesis
    using h a b by simp
qed

text \<open>
  The handler with the interval 0 and with no interval, on the same event: no task.
\<close>

lemma costUpdater_not_armed_examples:
  "timers (snd (handleTransactionEvent (station1\<lparr>costUpdatedInterval := Some 0\<rparr>)
                 (event Started ''TX99'' (Some badge) None None) depot)) = []
   \<and> timers (snd (handleTransactionEvent (station1\<lparr>costUpdatedInterval := None\<rparr>)
                 (event Started ''TX99'' (Some badge) None None) depot)) = []
   \<and> timers (snd (handleTransactionEvent station1
                 (event Updated ''TX99'' (Some badge) None None) depot)) = []"
  by (simp add: cost_eval handler_eval)

text \<open>
  C1 as stated fails for a negative interval: with the interval \<open>-1\<close>, which is not
  greater than 0, a Started event with an accepted token arms a task all the same.
\<close>

theorem costUpdater_negative_interval_counterexample:
  "costUpdatedInterval (station1\<lparr>costUpdatedInterval := Some (- 1)\<rparr>) = Some (- 1)
   \<and> \<not> (0 :: real) < - 1
   \<and> eventType (msg_payload (event Started ''TX99'' (Some badge) None None)) = Started
   \<and> isAccepted (authorizationOutcome (station1\<lparr>costUpdatedInterval := Some (- 1)\<rparr>)
                   (event Started ''TX99'' (Some badge) None None) depot)
   \<and> timers (snd (handleTransactionEvent (station1\<lparr>costUpdatedInterval := Some (- 1)\<rparr>)
                 (event Started ''TX99'' (Some badge) None None) depot))
       = [\<lparr>it_stationId = ''CS1'', it_transactionId = ''TX99'', it_tenantId = ''T1'',
           it_delayMs = - 1000\<rparr>]"
  by (simp add: cost_eval handler_eval) (simp add: double_eval)

subsection \<open>MeterValues handler\<close>

text \<open>
  C2. For every MeterValues submission that the validator finds invalid (at least one
  meter value has an invalid signature), the handler raises the security error carrying
  the correlation id of the message and sends no response; at that point every meter
  value of the payload, valid or not, has been appended to the stored meter values, each
  by its own call made before the call to the validator.
\<close>

theorem handleMeterValues_invalid_signature:
  assumes "validateMeterValues e (ctx_stationId (msg_context message))
             (mvr_meterValue (msg_payload message)) = Inr False"
  shows "handleMeterValues e message w =
     (Inl (OcppError (ctx_correlationId (msg_context message)) SecurityError
             ''One or more MeterValues have an invalid signature.''),
      w\<lparr>meterValues := meterValues w
            @ map (\<lambda>m. \<lparr>smv_transactionDatabaseId = None, smv_meterValue = m\<rparr>)
                (mvr_meterValue (msg_payload message)),
        logs := logs w @ [(LDebug, ''MeterValues received:'')],
        calls := calls w @ map CreateMeterValue (mvr_meterValue (msg_payload message))
                 @ [ValidateMeterValues (ctx_stationId (msg_context message))
                      (mvr_meterValue (msg_payload message))]\<rparr>)"
  using assms
  by (simp add: handleMeterValues_def foldl_createMeterValue logMsg_def invoke_def Let_def)

theorem handleMeterValues_invalid_signature_witness:
  "validateMeterValues station1 (ctx_stationId (msg_context submission))
      (mvr_meterValue (msg_payload submission)) = Inr False
   \<and> fst (handleMeterValues station1 submission depot)
       = Inl (OcppError ''c-1'' SecurityError
                ''One or more MeterValues have an invalid signature.'')
   \<and> sentResults (snd (handleMeterValues station1 submission depot)) = []
   \<and> meterValues (snd (handleMeterValues station1 submission depot))
       = meterValues depot
         @ [\<lparr>smv_transactionDatabaseId = None, smv_meterValue = reading ''t3'' 1 None\<rparr>,
            \<lparr>smv_transactionDatabaseId = None,
             smv_meterValue = reading ''t4'' 2 (Some ''tampered'')\<rparr>]"
proof -
  have h: "validateMeterValues station1 (ctx_stationId (msg_context submission))
      (mvr_meterValue (msg_payload submission)) = Inr False"
    by (simp add: station1_def submission_def untampered_def reading_def)
  note t = handleMeterValues_invalid_signature [OF h, of depot]
  have a: "fst (handleMeterValues station1 submission depot)
       = Inl (OcppError ''c-1'' SecurityError
                ''One or more MeterValues have an invalid signature.'')"
    by (simp only: t fst_conv) (simp add: submission_def ctx1_def)
  have b: "sentResults (snd (handleMeterValues station1 submission depot)) = []"
    by (simp only: t snd_conv) (simp add: depot_def)
  have c: "meterValues (snd (handleMeterValues station1 submission depot))
       = meterValues depot
         @ [\<lparr>smv_transactionDatabaseId = None, smv_meterValue = reading ''t3'' 1 None\<rparr>,
            \<lparr>smv_transactionDatabaseId = None,
             smv_meterValue = reading ''t4'' 2 (Some ''tampered'')\<rparr>]"
    by (simp only: t snd_conv) (simp add: submission_def)
  show ?thesis
    using h a b c by simp
qed

subsection \<open>TransactionEvent handler\<close>

text \<open>
  An event without identity token whose meter values the validator finds invalid: the
  handler logs the signature warning as its last log entry, raises no error, and sends
  the normal correlated response, the one built by the cost steps.
\<close>

lemma anonymous_event_invalid_signature_warns:
  assumes "idToken (msg_payload message) = None"
    and "meterValue (msg_payload message) = Some mvs"
    and "validateMeterValues e (ctx_stationId (msg_context message)) mvs = Inr False"
  shows "fst (handleTransactionEvent e message w) = Inr ()
   \<and> (\<exists>ls. logs (snd (handleTransactionEvent e message w)) = logs w @ ls @ [signatureWarning])
   \<and> sentResults (snd (handleTransactionEvent e message w))
       = sentResults w
         @ [(msg_context message,
             TransactionEventResult
               (fst (anonymousResponse e message (recordEvent e message w))))]"
proof -
  let ?w2 = "recordEvent e message w"
  obtain response w3 where r: "anonymousResponse e message ?w2 = (response, w3)"
    by (cases "anonymousResponse e message ?w2")
  have c: "costOnly ?w2 w3"
    using costOnly_anonymousResponse [of ?w2 e message] r by simp
  then obtain ls where ls: "logs w3 = logs ?w2 @ ls"
    unfolding costOnly_def by blast
  have s: "sentResults w3 = sentResults w"
    using c unfolding costOnly_def by (simp add: recordEvent_fields)
  have h: "handleTransactionEvent e message w
     = (Inr (),
        sendCallResultWithMessage message (TransactionEventResult response)
          (logMsg LWarn
             ''One or more MeterValues in this TransactionEvent have an invalid signature.''
             (invoke (ValidateMeterValues (ctx_stationId (msg_context message)) mvs) w3)))"
    using assms by (simp add: handleTransactionEvent_def anonymousBranch_def r Let_def)
  have a: "fst (handleTransactionEvent e message w) = Inr ()"
    by (simp add: h)
  have "logs (snd (handleTransactionEvent e message w))
      = logs w @ ((LDebug, ''Transaction event received:'') # ls) @ [signatureWarning]"
    by (simp add: h ls recordEvent_fields sendCallResultWithMessage_def logMsg_def invoke_def
          signatureWarning_def)
  then have b: "\<exists>ls. logs (snd (handleTransactionEvent e message w))
      = logs w @ ls @ [signatureWarning]"
    by (rule exI)
  have d: "sentResults (snd (handleTransactionEvent e message w))
       = sentResults w
         @ [(msg_context message,
             TransactionEventResult
               (fst (anonymousResponse e message (recordEvent e message w))))]"
    by (simp add: h s r sendCallResultWithMessage_def logMsg_def invoke_def)
  show ?thesis
    using a b d by simp
qed

lemma anonymous_event_invalid_signature_example:
  "idToken (msg_payload (event Updated ''TX42'' None None
                           (Some [reading ''t3'' 1 (Some ''tampered'')]))) = None
   \<and> meterValue (msg_payload (event Updated ''TX42'' None None
                           (Some [reading ''t3'' 1 (Some ''tampered'')])))
       = Some [reading ''t3'' 1 (Some ''tampered'')]
   \<and> validateMeterValues station1
        (ctx_stationId (msg_context (event Updated ''TX42'' None None
                           (Some [reading ''t3'' 1 (Some ''tampered'')]))))
        [reading ''t3'' 1 (Some ''tampered'')] = Inr False
   \<and> fst (handleTransactionEvent station1
            (event Updated ''TX42'' None None (Some [reading ''t3'' 1 (Some ''tampered'')]))
            depot) = Inr ()
   \<and> logs (snd (handleTransactionEvent station1
            (event Updated ''TX42'' None None (Some [reading ''t3'' 1 (Some ''tampered'')]))
            depot))
       = [(LDebug, ''Transaction event received:''), (LDebug, ''Tariff found for station''),
          (LDebug, ''TotalKwh''), signatureWarning]
   \<and> sentResults (snd (handleTransactionEvent station1
            (event Updated ''TX42'' None None (Some [reading ''t3'' 1 (Some ''tampered'')]))
            depot))
       = [(ctx1, TransactionEventResult
                   \<lparr>totalCost = Some (fl 4.05), chargingPriority = None, idTokenInfo = None\<rparr>)]"
proof -
  let ?m = "event Updated ''TX42'' None None (Some [reading ''t3'' 1 (Some ''tampered'')])"
  have h1: "idToken (msg_payload ?m) = None"
    by (simp add: event_def)
  have h2: "meterValue (msg_payload ?m) = Some [reading ''t3'' 1 (Some ''tampered'')]"
    by (simp add: event_def)
  have h3: "validateMeterValues station1 (ctx_stationId (msg_context ?m))
              [reading ''t3'' 1 (Some ''tampered'')] = Inr False"
    by (simp add: station1_def untampered_def reading_def)
  note t = anonymous_event_invalid_signature_warns [OF h1 h2 h3, of depot]
  have a: "fst (handleTransactionEvent station1 ?m depot) = Inr ()"
    by (rule t [THEN conjunct1])
  have b: "logs (snd (handleTransactionEvent station1 ?m depot))
       = [(LDebug, ''Transaction event received:''), (LDebug, ''Tariff found for station''),
          (LDebug, ''TotalKwh''), signatureWarning]"
    by (simp add: cost_eval handler_eval)
  have c: "sentResults (snd (handleTransactionEvent station1 ?m depot))
       = [(ctx1, TransactionEventResult
                   \<lparr>totalCost = Some (fl 4.05), chargingPriority = None, idTokenInfo = None\<rparr>)]"
    by (simp add: cost_eval handler_eval) (simp add: double_eval)
  show ?thesis
    using h1 h2 h3 a b c by simp
qed

text \<open>
  An event that carries an identity token: the handler logs nothing but the reception,
  and after the first part its only call is the authorization, so the meter values are
  not validated; the response is the authorization result whenever the authorization
  service returns one.
\<close>

lemma authorized_event_not_validated:
  assumes "idToken (msg_payload message) = Some tok"
  shows "logs (snd (handleTransactionEvent e message w))
       = logs w @ [(LDebug, ''Transaction event received:'')]
   \<and> calls (snd (handleTransactionEvent e message w))
       = calls (recordEvent e message w)
         @ [AuthorizeIdToken (msg_payload message) (msg_context message)]"
proof -
  let ?w2 = "recordEvent e message w"
  let ?a = "authorizeIdToken e (msg_payload message) (msg_context message)
              (invoke (AuthorizeIdToken (msg_payload message) (msg_context message)) ?w2)"
  have h: "handleTransactionEvent e message w = authorizedBranch e message ?w2"
    using assms by (simp add: handleTransactionEvent_def)
  have "logs (snd (authorizedBranch e message ?w2)) = logs ?w2
      \<and> calls (snd (authorizedBranch e message ?w2))
          = calls ?w2 @ [AuthorizeIdToken (msg_payload message) (msg_context message)]"
  proof (cases ?a)
    case (Inl err)
    then show ?thesis
      by (simp add: authorizedBranch_def Let_def invoke_def)
  next
    case (Inr response)
    then show ?thesis
      by (cases "costUpdatedInterval e")
         (simp_all add: authorizedBranch_def Let_def invoke_def sendCallResultWithMessage_def
            updateCost_def)
  qed
  then show ?thesis
    unfolding h by (simp add: recordEvent_fields)
qed

lemma authorized_event_response_sent:
  assumes "idToken (msg_payload message) = Some tok"
    and "authorizationOutcome e message w = Inr response"
  shows "fst (handleTransactionEvent e message w) = Inr ()
   \<and> sentResults (snd (handleTransactionEvent e message w))
       = sentResults w @ [(msg_context message, TransactionEventResult response)]"
proof -
  let ?w2 = "recordEvent e message w"
  have h: "handleTransactionEvent e message w = authorizedBranch e message ?w2"
    using assms(1) by (simp add: handleTransactionEvent_def)
  have r: "authorizeIdToken e (msg_payload message) (msg_context message)
             (invoke (AuthorizeIdToken (msg_payload message) (msg_context message)) ?w2)
           = Inr response"
    using assms(2) by (simp add: authorizationOutcome_def)
  have "fst (authorizedBranch e message ?w2) = Inr ()
      \<and> sentResults (snd (authorizedBranch e message ?w2))
          = sentResults ?w2 @ [(msg_context message, TransactionEventResult response)]"
    using r
    by (cases "costUpdatedInterval e")
       (simp_all add: authorizedBranch_def Let_def invoke_def sendCallResultWithMessage_def
          updateCost_def)
  then show ?thesis
    unfolding h by (simp add: recordEvent_fields)
qed

text \<open>
  C3. The claim: for every TransactionEvent message whose payload contains meter values
  with an invalid signature, the handler logs a warning, raises no error, and still
  sends a normal correlated response. The handler at an Updated event of station CS1
  that carries an identity token and one meter value whose signature the validator finds
  invalid: the response is sent and no error is raised, but the validator is not called
  and no warning is logged; the only log entry is the debug line of the reception.
\<close>

theorem authorized_event_invalid_signature_no_warning:
  "idToken (msg_payload (event Updated ''TX42'' (Some badge) None
                            (Some [reading ''t3'' 1 (Some ''tampered'')]))) = Some badge
   \<and> meterValue (msg_payload (event Updated ''TX42'' (Some badge) None
                              (Some [reading ''t3'' 1 (Some ''tampered'')])))
       = Some [reading ''t3'' 1 (Some ''tampered'')]
   \<and> validateMeterValues station1 ''CS1'' [reading ''t3'' 1 (Some ''tampered'')] = Inr False
   \<and> fst (handleTransactionEvent station1
              (event Updated ''TX42'' (Some badge) None
                 (Some [reading ''t3'' 1 (Some ''tampered'')]))
              depot) = Inr ()
   \<and> logs (snd (handleTransactionEvent station1
              (event Updated ''TX42'' (Some badge) None
                 (Some [reading ''t3'' 1 (Some ''tampered'')]))
              depot))
       = [(LDebug, ''Transaction event received:'')]
   \<and> signatureWarning
       \<notin> set (logs (snd (handleTransactionEvent station1
              (event Updated ''TX42'' (Some badge) None
                 (Some [reading ''t3'' 1 (Some ''tampered'')]))
              depot)))
   \<and> calls (snd (handleTransactionEvent station1
              (event Updated ''TX42'' (Some badge) None
                 (Some [reading ''t3'' 1 (Some ''tampered'')]))
              depot))
       = [CreateOrUpdateTransaction
            (msg_payload (event Updated ''TX42'' (Some badge) None
                            (Some [reading ''t3'' 1 (Some ''tampered'')]))) ''CS1'',
          AuthorizeIdToken
            (msg_payload (event Updated ''TX42'' (Some badge) None
                            (Some [reading ''t3'' 1 (Some ''tampered'')]))) ctx1]"
  by (simp add: cost_eval handler_eval)

text \<open>
  C7. For every inbound TransactionEvent message the first call the handler makes is the
  upsert of the transaction with the payload and the station id of the message; nothing
  is tested before it, and the reservation update, the authorization call and the calls
  of the cost computation come after it. Whatever the later steps do, and whether the
  handler ends in an error or not, the transaction records it leaves are the ones the
  upsert produced, up to the cached energy total.
\<close>

theorem transaction_recorded_first:
  "(\<exists>rest. calls (snd (handleTransactionEvent e message w))
       = calls w
         @ CreateOrUpdateTransaction (msg_payload message) (ctx_stationId (msg_context message))
         # rest)
   \<and> map forgetKwh (transactions (snd (handleTransactionEvent e message w)))
       = map forgetKwh
           (fst (upsertTransaction e (msg_payload message) (ctx_stationId (msg_context message))
                   (transactions w, meterValues w)))"
proof -
  let ?w' = "snd (handleTransactionEvent e message w)"
  obtain cs where cs: "calls ?w' = calls (recordEvent e message w) @ cs"
    using branches_frame [of e message w] by blast
  obtain rs where rs: "calls (recordEvent e message w)
      = calls w @ CreateOrUpdateTransaction (msg_payload message)
                    (ctx_stationId (msg_context message)) # rs"
    using recordEvent_calls [of e message w] by blast
  have "calls ?w' = calls w @ CreateOrUpdateTransaction (msg_payload message)
                    (ctx_stationId (msg_context message)) # (rs @ cs)"
    using cs rs by simp
  then have a: "\<exists>rest. calls ?w' = calls w @ CreateOrUpdateTransaction (msg_payload message)
                    (ctx_stationId (msg_context message)) # rest"
    by (rule exI)
  have b: "map forgetKwh (transactions ?w')
       = map forgetKwh
           (fst (upsertTransaction e (msg_payload message) (ctx_stationId (msg_context message))
                   (transactions w, meterValues w)))"
    using branches_frame [of e message w] by (simp add: recordEvent_fields)
  show ?thesis
    using a b by simp
qed

text \<open>
  An event whose authorization fails after the upsert: the handler ends in the error of
  the authorization service, and the new transaction is in the store.
\<close>

theorem transaction_recorded_first_witness:
  "fst (handleTransactionEvent (station1\<lparr>authorizeIdToken := authorizerDown\<rparr>)
          (event Started ''TX99'' (Some badge) (Some 7) None) depot)
       = Inl (Rejected ''authorizer unavailable'')
   \<and> calls (snd (handleTransactionEvent (station1\<lparr>authorizeIdToken := authorizerDown\<rparr>)
          (event Started ''TX99'' (Some badge) (Some 7) None) depot))
       = [CreateOrUpdateTransaction
            (msg_payload (event Started ''TX99'' (Some badge) (Some 7) None)) ''CS1'',
          UpdateAllReservations 7 ''CS1'' ''TX99'',
          AuthorizeIdToken (msg_payload (event Started ''TX99'' (Some badge) (Some 7) None))
            ctx1]
   \<and> map forgetKwh
        (transactions (snd (handleTransactionEvent
          (station1\<lparr>authorizeIdToken := authorizerDown\<rparr>)
          (event Started ''TX99'' (Some badge) (Some 7) None) depot)))
       = map forgetKwh
           (transactions depot
            @ [\<lparr>tx_id = 2, tx_stationId = ''CS1'', tx_transactionId = ''TX99'',
                tx_isActive = True, tx_totalKwh = None\<rparr>])"
proof -
  let ?e = "station1\<lparr>authorizeIdToken := authorizerDown\<rparr>"
  let ?m = "event Started ''TX99'' (Some badge) (Some 7) None"
  note t = transaction_recorded_first [of ?e ?m depot, THEN conjunct2]
  have a: "fst (handleTransactionEvent ?e ?m depot) = Inl (Rejected ''authorizer unavailable'')"
    by (simp add: cost_eval handler_eval)
  have b: "calls (snd (handleTransactionEvent ?e ?m depot))
       = [CreateOrUpdateTransaction (msg_payload ?m) ''CS1'',
          UpdateAllReservations 7 ''CS1'' ''TX99'',
          AuthorizeIdToken (msg_payload ?m) ctx1]"
    by (simp add: cost_eval handler_eval)
  have c: "map forgetKwh (transactions (snd (handleTransactionEvent ?e ?m depot)))
       = map forgetKwh
           (transactions depot
            @ [\<lparr>tx_id = 2, tx_stationId = ''CS1'', tx_transactionId = ''TX99'',
                tx_isActive = True, tx_totalKwh = None\<rparr>])"
    unfolding t
    by (simp add: station1_def depot_def event_def ctx1_def upsertBySpec_def Let_def)
  show ?thesis
    using a b c by simp
qed

subsection \<open>Reservations\<close>

text \<open>
  An event with a reservation id other than 0 makes one reservation update: exactly the
  reservations with that id at that station become inactive and terminated by the
  transaction of the event. An event without reservation id makes none.
\<close>

lemma reservation_terminated_by_event:
  assumes "reservationId (msg_payload message) = Some rid" and "rid \<noteq> 0"
  shows "reservations (snd (handleTransactionEvent e message w))
      = map (terminateReservation rid (ctx_stationId (msg_context message))
               (transactionId (transactionInfo (msg_payload message))))
          (reservations w)
   \<and> filter isReservationUpdate
        (drop (length (calls w)) (calls (snd (handleTransactionEvent e message w))))
      = [UpdateAllReservations rid (ctx_stationId (msg_context message))
           (transactionId (transactionInfo (msg_payload message)))]"
proof -
  let ?w' = "snd (handleTransactionEvent e message w)"
  obtain cs where cs: "calls ?w' = calls (recordEvent e message w) @ cs"
      "filter isReservationUpdate cs = []"
    using branches_frame [of e message w] by blast
  have a: "reservations ?w'
      = map (terminateReservation rid (ctx_stationId (msg_context message))
               (transactionId (transactionInfo (msg_payload message))))
          (reservations w)"
    using branches_frame [of e message w] assms by (simp add: recordEvent_reservations)
  have b: "filter isReservationUpdate (drop (length (calls w)) (calls ?w'))
      = [UpdateAllReservations rid (ctx_stationId (msg_context message))
           (transactionId (transactionInfo (msg_payload message)))]"
    using cs assms by (simp add: recordEvent_calls)
  show ?thesis
    using a b by simp
qed

lemma event_without_reservation:
  assumes "reservationId (msg_payload message) = None"
  shows "reservations (snd (handleTransactionEvent e message w)) = reservations w
   \<and> filter isReservationUpdate
        (drop (length (calls w)) (calls (snd (handleTransactionEvent e message w)))) = []"
proof -
  let ?w' = "snd (handleTransactionEvent e message w)"
  obtain cs where cs: "calls ?w' = calls (recordEvent e message w) @ cs"
      "filter isReservationUpdate cs = []"
    using branches_frame [of e message w] by blast
  have a: "reservations ?w' = reservations w"
    using branches_frame [of e message w] assms by (simp add: recordEvent_reservations)
  have b: "filter isReservationUpdate (drop (length (calls w)) (calls ?w')) = []"
    using cs assms by (simp add: recordEvent_calls)
  show ?thesis
    using a b by simp
qed

lemma reservation_seven_example:
  "reservations (snd (handleTransactionEvent station1
                        (event Started ''TX99'' None (Some 7) None) depot))
     = [\<lparr>rsv_id = 7, rsv_stationId = ''CS1'', rsv_isActive = False,
         rsv_terminatedByTransaction = Some ''TX99''\<rparr>,
        \<lparr>rsv_id = 7, rsv_stationId = ''CS2'', rsv_isActive = True,
         rsv_terminatedByTransaction = None\<rparr>,
        \<lparr>rsv_id = 0, rsv_stationId = ''CS1'', rsv_isActive = True,
         rsv_terminatedByTransaction = None\<rparr>]"
  by (simp add: cost_eval handler_eval)

text \<open>
  C8. The claim: for every TransactionEvent message that carries a reservation id,
  exactly the reservation matching (reservationId, stationId) is updated to inactive
  with its terminated-by-transaction field set to the transaction id of the event. The
  handler at a Started event of station CS1 that carries the reservation id 0: no
  reservation update is made and reservation 0 of CS1 stays active, where the claim has
  it terminated by transaction TX99.
\<close>

theorem reservation_zero_not_terminated:
  "reservationId (msg_payload (event Started ''TX99'' None (Some 0) None)) = Some 0
   \<and> reservations (snd (handleTransactionEvent station1
                          (event Started ''TX99'' None (Some 0) None) depot))
       = reservations depot
   \<and> filter isReservationUpdate
        (calls (snd (handleTransactionEvent station1
                       (event Started ''TX99'' None (Some 0) None) depot))) = []
   \<and> map (terminateReservation 0 ''CS1'' ''TX99'') (reservations depot)
       \<noteq> reservations depot"
  by (simp add: cost_eval handler_eval)

subsection \<open>Security event repository\<close>

text \<open>
  C10. For every call to \<open>readByStationIdAndTimestamps\<close> the rows returned are exactly
  the security events of the given station whose timestamp satisfies the given bounds,
  in stored order: no timestamp constraint when neither bound is given, timestamp at
  most \<open>to\<close> when only \<open>to\<close> is given, timestamp at least \<open>from\<close> when only
  \<open>from\<close> is given, and between the two, both included, when both are given.
\<close>

theorem readByStationIdAndTimestamps_exact:
  "readByStationIdAndTimestamps stationId fromDate toDate rows =
     filter (\<lambda>ev. se_stationId ev = stationId
                 \<and> (case fromDate of None \<Rightarrow> True | Some f \<Rightarrow> f \<le> se_timestamp ev)
                 \<and> (case toDate of None \<Rightarrow> True | Some t \<Rightarrow> se_timestamp ev \<le> t)) rows
   \<and> set (readByStationIdAndTimestamps stationId fromDate toDate rows) =
       {ev. ev \<in> set rows \<and> se_stationId ev = stationId
            \<and> (case fromDate of None \<Rightarrow> True | Some f \<Rightarrow> f \<le> se_timestamp ev)
            \<and> (case toDate of None \<Rightarrow> True | Some t \<Rightarrow> se_timestamp ev \<le> t)}"
proof -
  have a: "readByStationIdAndTimestamps stationId fromDate toDate rows =
     filter (\<lambda>ev. se_stationId ev = stationId
                 \<and> (case fromDate of None \<Rightarrow> True | Some f \<Rightarrow> f \<le> se_timestamp ev)
                 \<and> (case toDate of None \<Rightarrow> True | Some t \<Rightarrow> se_timestamp ev \<le> t)) rows"
    by (cases fromDate; cases toDate)
       (simp_all add: readByStationIdAndTimestamps_def generateTimestampQuery_def
          readAllByQuery_def toISOString_def)
  show ?thesis
    unfolding a by auto
qed

theorem readByStationIdAndTimestamps_exact_witness:
  "map se_timestamp (readByStationIdAndTimestamps ''CS1'' None None securityLog)
       = [100, 200, 300]
   \<and> map se_timestamp (readByStationIdAndTimestamps ''CS1'' None (Some 200) securityLog)
       = [100, 200]
   \<and> map se_timestamp (readByStationIdAndTimestamps ''CS1'' (Some 200) None securityLog)
       = [200, 300]
   \<and> map se_timestamp (readByStationIdAndTimestamps ''CS1'' (Some 100) (Some 200) securityLog)
       = [100, 200]"
proof -
  note t = readByStationIdAndTimestamps_exact [THEN conjunct1]
  show ?thesis
    unfolding t by (simp add: securityLog_def)
qed

end
